theory Spec2Isabelle
  imports Main "HOL-Library.Word"
begin

section \<open>The vSphere driver: virtual machine operations (driver/vm.go)\<close>

text \<open>
  A shallow embedding of \<^verbatim>\<open>driver/vm.go\<close>. Go's \<^verbatim>\<open>int32\<close> and \<^verbatim>\<open>int64\<close> are words, a pointer
  that may be nil is an \<open>option\<close>, a Go result \<^verbatim>\<open>(x, err)\<close> that the caller tests with
  \<^verbatim>\<open>if err != nil\<close> is a sum with the error on the left, and a failed type assertion is the
  error \<open>Panic\<close>.
\<close>

type_synonym int32 = "32 word"
type_synonym int64 = "64 word"

datatype error = Error string | Panic string

subsection \<open>The configuration structs of the source\<close>

record CloneConfig =
  Name :: string
  Folder :: string
  Host :: string
  ResourcePool :: string
  Datastore :: string
  LinkedClone :: bool

record HardwareConfig =
  CPUs :: int32
  CPUReservation :: int64
  CPULimit :: int64
  RAM :: int64
  RAMReservation :: int64
  RAMReserveAll :: bool

record DiskConfig =
  DiskSizeKB :: int64
  ThinProvisioned :: bool
  ControllerType :: string

text \<open>
  \<^verbatim>\<open>CreateConfig\<close> embeds \<^verbatim>\<open>HardwareConfig\<close> and \<^verbatim>\<open>DiskConfig\<close>; in Go an embedded struct is a
  field named after its type, and the source itself writes \<^verbatim>\<open>config.HardwareConfig\<close>.
\<close>

record CreateConfig =
  HardwareConfig :: HardwareConfig
  DiskConfig :: DiskConfig
  Annotation :: string
  Name :: string
  Folder :: string
  Host :: string
  ResourcePool :: string
  Datastore :: string
  GuestOS :: string
  Network :: string
  Force :: bool

subsection \<open>The types of the vSphere API that the source fills in\<close>

text \<open>
  The declarations of package \<^verbatim>\<open>types\<close> are not part of \<^verbatim>\<open>vm.go\<close>; the records below hold the
  fields that the source reads or writes, with the types its assignments require (the source
  assigns an \<^verbatim>\<open>int64\<close> to \<^verbatim>\<open>Limit\<close> and to \<^verbatim>\<open>Reservation\<close>, the address of a struct to
  \<^verbatim>\<open>CpuAllocation\<close>, the address of a bool to \<^verbatim>\<open>MemoryReservationLockedToMax\<close>). A field that
  the source never assigns keeps Go's zero value.
\<close>

datatype ManagedObjectReference = ManagedObjectReference (Type: string) (Value: string)

record ResourceAllocationInfo =
  Reservation :: int64
  Limit :: int64

datatype BaseVirtualDeviceBackingInfo =
    VirtualDiskFlatVer2BackingInfo (DiskMode: string) (BackingThinProvisioned: "bool option")
  | VirtualEthernetCardBackingInfo string
  | VirtualCdromIsoBackingInfo string

record VirtualDevice =
  Key :: int32
  Backing :: "BaseVirtualDeviceBackingInfo option"
  ControllerKey :: int32
  UnitNumber :: "int32 option"

datatype BaseVirtualDevice =
    VirtualIDEController VirtualDevice
  | VirtualSCSIController string VirtualDevice
  | VirtualDisk VirtualDevice (CapacityInKB: int64)
  | VirtualEthernetCard VirtualDevice
  | VirtualCdrom VirtualDevice

type_synonym VirtualDeviceList = "BaseVirtualDevice list"

record VirtualDeviceConfigSpec =
  Operation :: string
  Device :: BaseVirtualDevice

record VirtualMachineFileInfo =
  VmPathName :: string

record VirtualMachineConfigSpec =
  NumCPUs :: int32
  MemoryMB :: int64
  CpuAllocation :: "ResourceAllocationInfo option"
  MemoryAllocation :: "ResourceAllocationInfo option"
  MemoryReservationLockedToMax :: "bool option"
  Name :: string
  Annotation :: string
  GuestId :: string
  DeviceChange :: "VirtualDeviceConfigSpec list"
  Files :: "VirtualMachineFileInfo option"

subsection \<open>The spec compiler: \<^verbatim>\<open>toConfigSpec\<close>\<close>

text \<open>Go's zero values, which \<^verbatim>\<open>var x T\<close> and \<^verbatim>\<open>T{}\<close> give.\<close>

definition ResourceAllocationInfo_zero :: ResourceAllocationInfo where
  "ResourceAllocationInfo_zero = \<lparr>Reservation = 0, Limit = 0\<rparr>"

definition VirtualMachineConfigSpec_zero :: VirtualMachineConfigSpec where
  "VirtualMachineConfigSpec_zero =
     \<lparr>NumCPUs = 0, MemoryMB = 0, CpuAllocation = None, MemoryAllocation = None,
      MemoryReservationLockedToMax = None, VirtualMachineConfigSpec.Name = '''',
      VirtualMachineConfigSpec.Annotation = '''', GuestId = '''', DeviceChange = [],
      Files = None\<rparr>"

definition HardwareConfig_toConfigSpec :: "HardwareConfig \<Rightarrow> VirtualMachineConfigSpec" where
  "HardwareConfig_toConfigSpec config =
     (let confSpec = VirtualMachineConfigSpec_zero;
          confSpec = confSpec\<lparr>NumCPUs := CPUs config\<rparr>;
          confSpec = confSpec\<lparr>MemoryMB := RAM config\<rparr>;
          cpuSpec = ResourceAllocationInfo_zero;
          cpuSpec = cpuSpec\<lparr>Reservation := CPUReservation config\<rparr>;
          cpuSpec = cpuSpec\<lparr>Limit := CPULimit config\<rparr>;
          confSpec = confSpec\<lparr>CpuAllocation := Some cpuSpec\<rparr>;
          ramSpec = ResourceAllocationInfo_zero;
          ramSpec = ramSpec\<lparr>Reservation := RAMReservation config\<rparr>;
          confSpec = confSpec\<lparr>MemoryAllocation := Some ramSpec\<rparr>;
          confSpec = confSpec\<lparr>MemoryReservationLockedToMax := Some (RAMReserveAll config)\<rparr>
      in confSpec)"

definition CreateConfig_toConfigSpec :: "CreateConfig \<Rightarrow> VirtualMachineConfigSpec" where
  "CreateConfig_toConfigSpec config =
     (let confSpec = HardwareConfig_toConfigSpec (HardwareConfig config);
          confSpec = confSpec\<lparr>VirtualMachineConfigSpec.Name := CreateConfig.Name config\<rparr>;
          confSpec = confSpec\<lparr>VirtualMachineConfigSpec.Annotation := CreateConfig.Annotation config\<rparr>;
          confSpec = confSpec\<lparr>GuestId := GuestOS config\<rparr>
      in confSpec)"

subsection \<open>Handles, tasks and what the endpoint returns\<close>

text \<open>
  The wrappers \<^verbatim>\<open>Folder\<close>, \<^verbatim>\<open>ResourcePool\<close>, \<^verbatim>\<open>Host\<close> and \<^verbatim>\<open>Datastore\<close> of package \<^verbatim>\<open>driver\<close>, a
  network and a task are opaque handles on the remote endpoint: each is the managed object
  reference it stands for.
\<close>

type_synonym Folder = ManagedObjectReference
type_synonym ResourcePool = ManagedObjectReference
type_synonym Host = ManagedObjectReference
type_synonym Datastore = ManagedObjectReference
type_synonym NetworkReference = ManagedObjectReference
type_synonym Task = ManagedObjectReference

datatype AnyType = AnyManagedObjectReference ManagedObjectReference | AnyOther string

record TaskInfo =
  Result :: AnyType

record VirtualMachineSnapshotInfo =
  CurrentSnapshot :: "ManagedObjectReference option"

record mo_VirtualMachine =
  Snapshot :: "VirtualMachineSnapshotInfo option"

record VirtualMachineRelocateSpec =
  Pool :: "ManagedObjectReference option"
  Datastore :: "ManagedObjectReference option"
  DiskMoveType :: string

record VirtualMachineCloneSpec =
  Location :: VirtualMachineRelocateSpec
  PowerOn :: bool
  Snapshot :: "ManagedObjectReference option"

datatype VirtualMachine = VirtualMachine (vm: ManagedObjectReference)

subsection \<open>The world: a clock and the trace of calls that left the process\<close>

text \<open>
  Every call that \<^verbatim>\<open>vm.go\<close> makes to the endpoint (a lookup, a read, a submitted task, a
  wait) and every sleep is appended to the trace, in the order the source makes them. The
  clock counts nanoseconds and is advanced by \<^verbatim>\<open>time.Sleep\<close> alone.
\<close>

datatype call =
    CallFindFolder string
  | CallFindResourcePool string string
  | CallFindHost string
  | CallFindDatastoreOrDefault string
  | CallFileExists Datastore string
  | CallNetworkOrDefault string
  | CallEthernetCardBackingInfo NetworkReference
  | CallCreateVM Folder VirtualMachineConfigSpec ResourcePool Host
  | CallWaitForResult Task
  | CallProperties ManagedObjectReference "string list"
  | CallClone ManagedObjectReference Folder string VirtualMachineCloneSpec
  | CallPowerState ManagedObjectReference
  | CallPowerOff ManagedObjectReference
  | CallDevice ManagedObjectReference
  | CallReconfigure ManagedObjectReference VirtualMachineConfigSpec
  | CallSleep nat

record world =
  clock :: nat
  trace :: "call list"

text \<open>
  The endpoint and the lookup layer, reached through \<^verbatim>\<open>d *Driver\<close>. None of it is in
  \<^verbatim>\<open>vm.go\<close>, so it is a parameter: one function for each call of the source, which may
  answer differently in different worlds (the time and all that was called before).
  \<open>Path\<close> and \<open>DatastoreName\<close> only format a string.
\<close>

record Driver =
  FindFolder :: "world \<Rightarrow> string \<Rightarrow> error + Folder"
  FindResourcePool :: "world \<Rightarrow> string \<Rightarrow> string \<Rightarrow> error + ResourcePool"
  FindHost :: "world \<Rightarrow> string \<Rightarrow> error + Host"
  FindDatastoreOrDefault :: "world \<Rightarrow> string \<Rightarrow> error + Datastore"
  FileExists :: "world \<Rightarrow> Datastore \<Rightarrow> string \<Rightarrow> bool"
  Path :: "Datastore \<Rightarrow> string \<Rightarrow> string"
  DatastoreName :: "Datastore \<Rightarrow> string"
  NetworkOrDefault :: "world \<Rightarrow> string \<Rightarrow> error + NetworkReference"
  EthernetCardBackingInfo ::
    "world \<Rightarrow> NetworkReference \<Rightarrow> error + BaseVirtualDeviceBackingInfo"
  FolderCreateVM ::
    "world \<Rightarrow> Folder \<Rightarrow> VirtualMachineConfigSpec \<Rightarrow> ResourcePool \<Rightarrow> Host \<Rightarrow> error + Task"
  WaitForResult :: "world \<Rightarrow> Task \<Rightarrow> error + TaskInfo"
  Properties :: "world \<Rightarrow> ManagedObjectReference \<Rightarrow> string list \<Rightarrow> error + mo_VirtualMachine"
  VMClone ::
    "world \<Rightarrow> ManagedObjectReference \<Rightarrow> Folder \<Rightarrow> string \<Rightarrow> VirtualMachineCloneSpec
       \<Rightarrow> error + Task"
  PowerState :: "world \<Rightarrow> ManagedObjectReference \<Rightarrow> error + string"
  VMPowerOff :: "world \<Rightarrow> ManagedObjectReference \<Rightarrow> error + Task"
  VMDevice :: "world \<Rightarrow> ManagedObjectReference \<Rightarrow> error + VirtualDeviceList"
  VMReconfigure ::
    "world \<Rightarrow> ManagedObjectReference \<Rightarrow> VirtualMachineConfigSpec \<Rightarrow> error + Task"

text \<open>
  The device-list library (\<^verbatim>\<open>object.VirtualDeviceList\<close> and \<^verbatim>\<open>object.EthernetCardTypes\<close>),
  also outside \<^verbatim>\<open>vm.go\<close> and also a parameter. Its functions are pure. \<open>AssignController\<close>
  writes through the pointer to the device it is given: here it returns the device as
  written. \<open>ConfigSpec\<close> returns Go's pair of a value and an error, because \<^verbatim>\<open>AddCdrom\<close>
  uses the value without testing the error.
\<close>

record Library =
  CreateIDEController :: "VirtualDeviceList \<Rightarrow> error + BaseVirtualDevice"
  CreateSCSIController :: "VirtualDeviceList \<Rightarrow> string \<Rightarrow> error + BaseVirtualDevice"
  DeviceName :: "VirtualDeviceList \<Rightarrow> BaseVirtualDevice \<Rightarrow> string"
  FindDiskController :: "VirtualDeviceList \<Rightarrow> string \<Rightarrow> error + BaseVirtualDevice"
  NewKey :: "VirtualDeviceList \<Rightarrow> int32"
  AssignController ::
    "VirtualDeviceList \<Rightarrow> BaseVirtualDevice \<Rightarrow> BaseVirtualDevice \<Rightarrow> BaseVirtualDevice"
  CreateEthernetCard :: "string \<Rightarrow> BaseVirtualDeviceBackingInfo \<Rightarrow> error + BaseVirtualDevice"
  ConfigSpec :: "VirtualDeviceList \<Rightarrow> string \<Rightarrow> VirtualDeviceConfigSpec list \<times> error option"
  FindIDEController :: "VirtualDeviceList \<Rightarrow> string \<Rightarrow> error + BaseVirtualDevice"
  CreateCdrom :: "VirtualDeviceList \<Rightarrow> BaseVirtualDevice \<Rightarrow> error + BaseVirtualDevice"
  InsertIso :: "VirtualDeviceList \<Rightarrow> BaseVirtualDevice \<Rightarrow> string \<Rightarrow> BaseVirtualDevice"

definition remote :: "call \<Rightarrow> (world \<Rightarrow> 'a) \<Rightarrow> world \<Rightarrow> 'a \<times> world" where
  "remote c f w = (f w, w\<lparr>trace := trace w @ [c]\<rparr>)"

definition NewVM :: "ManagedObjectReference \<Rightarrow> VirtualMachine" where
  "NewVM ref = VirtualMachine ref"

definition VirtualDeviceConfigSpecOperationAdd :: string where
  "VirtualDeviceConfigSpecOperationAdd = ''add''"

definition VirtualDiskModePersistent :: string where
  "VirtualDiskModePersistent = ''persistent''"

definition VirtualMachinePowerStatePoweredOff :: string where
  "VirtualMachinePowerStatePoweredOff = ''poweredOff''"

definition Sleep :: "nat \<Rightarrow> world \<Rightarrow> world" where
  "Sleep n w = w\<lparr>clock := clock w + n, trace := trace w @ [CallSleep n]\<rparr>"

definition Second :: nat where
  "Second = 1000000000"

subsection \<open>The device composer\<close>

definition addCdrom :: "Library \<Rightarrow> VirtualDeviceList \<Rightarrow> error + VirtualDeviceList" where
  "addCdrom l devices =
     (case CreateIDEController l devices of
        Inl err \<Rightarrow> Inl err
      | Inr ideDevice \<Rightarrow> Inr (devices @ [ideDevice]))"

definition addDisk :: "Library \<Rightarrow> VirtualDeviceList \<Rightarrow> CreateConfig \<Rightarrow> error + VirtualDeviceList" where
  "addDisk l devices0 config =
     (case CreateSCSIController l devices0 (ControllerType (DiskConfig config)) of
        Inl err \<Rightarrow> Inl err
      | Inr device \<Rightarrow>
          (let devices = devices0 @ [device] in
           case FindDiskController l devices (DeviceName l devices device) of
             Inl err \<Rightarrow> Inl err
           | Inr controller \<Rightarrow>
               if DiskSizeKB (DiskConfig config) = 0 then Inl (Error ''not implemented'')
               else
                 (let disk = VirtualDisk
                        \<lparr>Key = NewKey l devices,
                         Backing = Some (VirtualDiskFlatVer2BackingInfo VirtualDiskModePersistent
                                           (Some (ThinProvisioned (DiskConfig config)))),
                         ControllerKey = 0,
                         UnitNumber = None\<rparr>
                        (DiskSizeKB (DiskConfig config));
                      disk = AssignController l devices disk controller
                  in Inr (devices @ [disk]))))"

definition addNetwork ::
  "Library \<Rightarrow> Driver \<Rightarrow> world \<Rightarrow> VirtualDeviceList \<Rightarrow> CreateConfig
     \<Rightarrow> (error + VirtualDeviceList) \<times> world" where
  "addNetwork l d w0 devices config =
     (case remote (CallNetworkOrDefault (Network config))
             (\<lambda>w. NetworkOrDefault d w (Network config)) w0 of
        (Inl err, w1) \<Rightarrow> (Inl err, w1)
      | (Inr network, w1) \<Rightarrow>
     (case remote (CallEthernetCardBackingInfo network)
             (\<lambda>w. EthernetCardBackingInfo d w network) w1 of
        (Inl err, w2) \<Rightarrow> (Inl err, w2)
      | (Inr backing, w2) \<Rightarrow>
     (case CreateEthernetCard l '''' backing of
        Inl err \<Rightarrow> (Inl err, w2)
      | Inr device \<Rightarrow> (Inr (devices @ [device]), w2))))"

subsection \<open>Lifecycle operations\<close>

definition CreateVM ::
  "Library \<Rightarrow> Driver \<Rightarrow> world \<Rightarrow> CreateConfig \<Rightarrow> (error + VirtualMachine) \<times> world" where
  "CreateVM l d w0 config =
     (let createSpec = CreateConfig_toConfigSpec config in
      case remote (CallFindFolder (CreateConfig.Folder config))
             (\<lambda>w. FindFolder d w (CreateConfig.Folder config)) w0 of
        (Inl err, w1) \<Rightarrow> (Inl err, w1)
      | (Inr folder, w1) \<Rightarrow>
     (case remote (CallFindResourcePool (CreateConfig.Host config) (CreateConfig.ResourcePool config))
             (\<lambda>w. FindResourcePool d w (CreateConfig.Host config) (CreateConfig.ResourcePool config))
             w1 of
        (Inl err, w2) \<Rightarrow> (Inl err, w2)
      | (Inr resourcePool, w2) \<Rightarrow>
     (case remote (CallFindHost (CreateConfig.Host config))
             (\<lambda>w. FindHost d w (CreateConfig.Host config)) w2 of
        (Inl err, w3) \<Rightarrow> (Inl err, w3)
      | (Inr host, w3) \<Rightarrow>
     (case remote (CallFindDatastoreOrDefault (CreateConfig.Datastore config))
             (\<lambda>w. FindDatastoreOrDefault d w (CreateConfig.Datastore config)) w3 of
        (Inl err, w4) \<Rightarrow> (Inl err, w4)
      | (Inr datastore, w4) \<Rightarrow>
     (let (exists, w5) =
            (if \<not> Force config then
               (let vmxPath = CreateConfig.Name config @ ''/'' @ CreateConfig.Name config @ ''.vmx''
                in case remote (CallFileExists datastore vmxPath)
                          (\<lambda>w. FileExists d w datastore vmxPath) w4 of
                     (True, w5) \<Rightarrow>
                       (let dsPath = Path d datastore vmxPath
                        in (Some (Error (''File '' @ [CHR 0x27] @ dsPath @ [CHR 0x27]
                                           @ '' already exists'')), w5))
                   | (False, w5) \<Rightarrow> (None, w5))
             else (None, w4))
      in case exists of
        Some err \<Rightarrow> (Inl err, w5)
      | None \<Rightarrow>
     (let devices = [] in
      case addCdrom l devices of
        Inl err \<Rightarrow> (Inl err, w5)
      | Inr devices \<Rightarrow>
     (case addDisk l devices config of
        Inl err \<Rightarrow> (Inl err, w5)
      | Inr devices \<Rightarrow>
     (case addNetwork l d w5 devices config of
        (Inl err, w6) \<Rightarrow> (Inl err, w6)
      | (Inr devices, w6) \<Rightarrow>
     (case ConfigSpec l devices VirtualDeviceConfigSpecOperationAdd of
        (deviceChange, Some err) \<Rightarrow> (Inl err, w6)
      | (deviceChange, None) \<Rightarrow>
     (let createSpec = createSpec\<lparr>DeviceChange := deviceChange\<rparr>;
          createSpec = createSpec
            \<lparr>Files := Some \<lparr>VmPathName = ''['' @ DatastoreName d datastore @ '']''\<rparr>\<rparr>
      in case remote (CallCreateVM folder createSpec resourcePool host)
                (\<lambda>w. FolderCreateVM d w folder createSpec resourcePool host) w6 of
        (Inl err, w7) \<Rightarrow> (Inl err, w7)
      | (Inr task, w7) \<Rightarrow>
     (case remote (CallWaitForResult task) (\<lambda>w. WaitForResult d w task) w7 of
        (Inl err, w8) \<Rightarrow> (Inl err, w8)
      | (Inr taskInfo, w8) \<Rightarrow>
     (case Result taskInfo of
        AnyManagedObjectReference vmRef \<Rightarrow> (Inr (NewVM vmRef), w8)
      | AnyOther t \<Rightarrow> (Inl (Panic ''interface conversion''), w8)))))))))))))"

definition Info ::
  "Driver \<Rightarrow> world \<Rightarrow> VirtualMachine \<Rightarrow> string list \<Rightarrow> (error + mo_VirtualMachine) \<times> world" where
  "Info d w0 v params =
     (let p = (if length params = 0 then [''*''] else params) in
      case remote (CallProperties (vm v) p) (\<lambda>w. Properties d w (vm v) p) w0 of
        (Inl err, w1) \<Rightarrow> (Inl err, w1)
      | (Inr info, w1) \<Rightarrow> (Inr info, w1))"

definition Clone ::
  "Driver \<Rightarrow> world \<Rightarrow> VirtualMachine \<Rightarrow> CloneConfig \<Rightarrow> (error + VirtualMachine) \<times> world" where
  "Clone d w0 template config =
     (case remote (CallFindFolder (CloneConfig.Folder config))
             (\<lambda>w. FindFolder d w (CloneConfig.Folder config)) w0 of
        (Inl err, w1) \<Rightarrow> (Inl err, w1)
      | (Inr folder, w1) \<Rightarrow>
     (let relocateSpec = \<lparr>Pool = None, VirtualMachineRelocateSpec.Datastore = None,
                           DiskMoveType = ''''\<rparr>
      in case remote (CallFindResourcePool (CloneConfig.Host config) (CloneConfig.ResourcePool config))
                (\<lambda>w. FindResourcePool d w (CloneConfig.Host config) (CloneConfig.ResourcePool config))
                w1 of
        (Inl err, w2) \<Rightarrow> (Inl err, w2)
      | (Inr pool, w2) \<Rightarrow>
     (let poolRef = pool;
          relocateSpec = relocateSpec\<lparr>Pool := Some poolRef\<rparr>
      in case remote (CallFindDatastoreOrDefault (CloneConfig.Datastore config))
                (\<lambda>w. FindDatastoreOrDefault d w (CloneConfig.Datastore config)) w2 of
        (Inl err, w3) \<Rightarrow> (Inl err, w3)
      | (Inr datastore, w3) \<Rightarrow>
     (let datastoreRef = datastore;
          relocateSpec = relocateSpec\<lparr>VirtualMachineRelocateSpec.Datastore := Some datastoreRef\<rparr>;
          cloneSpec = \<lparr>Location = relocateSpec, PowerOn = False,
                       VirtualMachineCloneSpec.Snapshot = None\<rparr>;
          (linked, w4) =
            (if LinkedClone config = True then
               (let cloneSpec = cloneSpec
                      \<lparr>Location := (Location cloneSpec)
                         \<lparr>DiskMoveType := ''createNewChildDiskBacking''\<rparr>\<rparr>
                in case Info d w3 template [''snapshot''] of
                     (Inl err, w4) \<Rightarrow> (Inl err, w4)
                   | (Inr tpl, w4) \<Rightarrow>
                       (case mo_VirtualMachine.Snapshot tpl of
                          None \<Rightarrow>
                            (Inl (Error ''`linked_clone=true`, but template has no snapshots''), w4)
                        | Some snapshot \<Rightarrow>
                            (Inr (cloneSpec\<lparr>VirtualMachineCloneSpec.Snapshot :=
                                              CurrentSnapshot snapshot\<rparr>), w4)))
             else (Inr cloneSpec, w3))
      in case linked of
        Inl err \<Rightarrow> (Inl err, w4)
      | Inr cloneSpec \<Rightarrow>
     (case remote (CallClone (vm template) folder (CloneConfig.Name config) cloneSpec)
             (\<lambda>w. VMClone d w (vm template) folder (CloneConfig.Name config) cloneSpec) w4 of
        (Inl err, w5) \<Rightarrow> (Inl err, w5)
      | (Inr task, w5) \<Rightarrow>
     (case remote (CallWaitForResult task) (\<lambda>w. WaitForResult d w task) w5 of
        (Inl err, w6) \<Rightarrow> (Inl err, w6)
      | (Inr info, w6) \<Rightarrow>
     (case Result info of
        AnyManagedObjectReference vmRef \<Rightarrow> (Inr (NewVM vmRef), w6)
      | AnyOther t \<Rightarrow> (Inl (Panic ''interface conversion''), w6))))))))"

text \<open>A function of the source that returns only an \<^verbatim>\<open>error\<close> returns \<open>None\<close> for \<^verbatim>\<open>nil\<close>.\<close>

definition PowerOff :: "Driver \<Rightarrow> world \<Rightarrow> VirtualMachine \<Rightarrow> error option \<times> world" where
  "PowerOff d w0 v =
     (case remote (CallPowerState (vm v)) (\<lambda>w. PowerState d w (vm v)) w0 of
        (Inl err, w1) \<Rightarrow> (Some err, w1)
      | (Inr state, w1) \<Rightarrow>
          if state = VirtualMachinePowerStatePoweredOff then (None, w1)
          else
            (case remote (CallPowerOff (vm v)) (\<lambda>w. VMPowerOff d w (vm v)) w1 of
               (Inl err, w2) \<Rightarrow> (Some err, w2)
             | (Inr task, w2) \<Rightarrow>
                 (case remote (CallWaitForResult task) (\<lambda>w. WaitForResult d w task) w2 of
                    (Inl err, w3) \<Rightarrow> (Some err, w3)
                  | (Inr _, w3) \<Rightarrow> (None, w3))))"

text \<open>
  The loop of \<^verbatim>\<open>WaitForShutdown\<close>. \<^verbatim>\<open>time.After(timeout)\<close> is the instant at which the timer
  channel becomes ready; the \<^verbatim>\<open>select\<close> with a \<^verbatim>\<open>default\<close> branch takes the timer branch exactly
  when that instant has come. Each turn that does not return sleeps one second, so the
  recursion is well-founded on the time left.
\<close>

function WaitForShutdown_loop ::
  "Driver \<Rightarrow> int \<Rightarrow> VirtualMachine \<Rightarrow> world \<Rightarrow> error option \<times> world" where
  "WaitForShutdown_loop d shutdownTimer v w0 =
     (case remote (CallPowerState (vm v)) (\<lambda>w. PowerState d w (vm v)) w0 of
        (Inl err, w1) \<Rightarrow> (Some err, w1)
      | (Inr powerState, w1) \<Rightarrow>
          if powerState = ''poweredOff'' then (None, w1)
          else if shutdownTimer \<le> int (clock w1)
          then (Some (Error ''Timeout while waiting for machine to shut down.''), w1)
          else WaitForShutdown_loop d shutdownTimer v (Sleep (1 * Second) w1))"
  by pat_completeness auto
termination
  by (relation "measure (\<lambda>(d, shutdownTimer, v, w). nat (shutdownTimer - int (clock w)))")
     (auto simp: remote_def Sleep_def Second_def)

declare WaitForShutdown_loop.simps [simp del]

definition WaitForShutdown ::
  "Driver \<Rightarrow> world \<Rightarrow> VirtualMachine \<Rightarrow> int64 \<Rightarrow> error option \<times> world" where
  "WaitForShutdown d w0 v timeout =
     (let shutdownTimer = int (clock w0) + sint timeout
      in WaitForShutdown_loop d shutdownTimer v w0)"

definition AddCdrom ::
  "Library \<Rightarrow> Driver \<Rightarrow> world \<Rightarrow> VirtualMachine \<Rightarrow> string \<Rightarrow> error option \<times> world" where
  "AddCdrom l d w0 v isoPath =
     (case remote (CallDevice (vm v)) (\<lambda>w. VMDevice d w (vm v)) w0 of
        (Inl err, w1) \<Rightarrow> (Some err, w1)
      | (Inr devices, w1) \<Rightarrow>
     (case FindIDEController l devices '''' of
        Inl err \<Rightarrow> (Some err, w1)
      | Inr ide \<Rightarrow>
     (case CreateCdrom l devices ide of
        Inl err \<Rightarrow> (Some err, w1)
      | Inr cdrom \<Rightarrow>
     (let cdrom = InsertIso l devices cdrom isoPath;
          newDevices = [cdrom];
          confSpec = VirtualMachineConfigSpec_zero;
          (deviceChange, err) = ConfigSpec l newDevices VirtualDeviceConfigSpecOperationAdd;
          confSpec = confSpec\<lparr>DeviceChange := deviceChange\<rparr>
      in case remote (CallReconfigure (vm v) confSpec)
                (\<lambda>w. VMReconfigure d w (vm v) confSpec) w1 of
        (Inl err, w2) \<Rightarrow> (Some err, w2)
      | (Inr task, w2) \<Rightarrow>
          (case remote (CallWaitForResult task) (\<lambda>w. WaitForResult d w task) w2 of
             (Inl err, w3) \<Rightarrow> (Some err, w3)
           | (Inr _, w3) \<Rightarrow> (None, w3))))))"

subsection \<open>Reading a trace\<close>

text \<open>The calls made since an earlier world, and the calls that submit a task.\<close>

definition calls_since :: "world \<Rightarrow> world \<Rightarrow> call list" where
  "calls_since w0 w = drop (length (trace w0)) (trace w)"

fun submits_task :: "call \<Rightarrow> bool" where
  "submits_task (CallCreateVM folder spec pool host) = True"
| "submits_task (CallClone v folder name spec) = True"
| "submits_task (CallPowerOff v) = True"
| "submits_task (CallReconfigure v spec) = True"
| "submits_task c = False"

fun polls_power_state :: "call \<Rightarrow> bool" where
  "polls_power_state (CallPowerState v) = True"
| "polls_power_state c = False"

subsection \<open>A device-list library and an endpoint to run the operations on\<close>

text \<open>
  Modelled from the spec: the device-list library (\<^verbatim>\<open>object.VirtualDeviceList\<close>) is vendored
  and not part of \<^verbatim>\<open>vm.go\<close>. The spec asks of it that an unrecognised controller type is
  refused, that keys are generated locally, fresh and monotonic within one composition, and
  that a disk is bound to its controller by the controller's key. \<open>govmomi\<close> is such a
  library: keys count down from -201, a device is named by its type and key, a controller is
  found by that name, and binding writes the controller's key and the first free unit
  number into the device. The theorems below hold for every library; \<open>govmomi\<close> is the one
  they are run on.
\<close>

fun GetVirtualDevice :: "BaseVirtualDevice \<Rightarrow> VirtualDevice" where
  "GetVirtualDevice (VirtualIDEController dev) = dev"
| "GetVirtualDevice (VirtualSCSIController kind dev) = dev"
| "GetVirtualDevice (VirtualDisk dev capacity) = dev"
| "GetVirtualDevice (VirtualEthernetCard dev) = dev"
| "GetVirtualDevice (VirtualCdrom dev) = dev"

fun WithVirtualDevice :: "(VirtualDevice \<Rightarrow> VirtualDevice) \<Rightarrow> BaseVirtualDevice \<Rightarrow> BaseVirtualDevice" where
  "WithVirtualDevice f (VirtualIDEController dev) = VirtualIDEController (f dev)"
| "WithVirtualDevice f (VirtualSCSIController kind dev) = VirtualSCSIController kind (f dev)"
| "WithVirtualDevice f (VirtualDisk dev capacity) = VirtualDisk (f dev) capacity"
| "WithVirtualDevice f (VirtualEthernetCard dev) = VirtualEthernetCard (f dev)"
| "WithVirtualDevice f (VirtualCdrom dev) = VirtualCdrom (f dev)"

fun DeviceType :: "BaseVirtualDevice \<Rightarrow> string" where
  "DeviceType (VirtualIDEController dev) = ''ide''"
| "DeviceType (VirtualSCSIController kind dev) = kind"
| "DeviceType (VirtualDisk dev capacity) = ''disk''"
| "DeviceType (VirtualEthernetCard dev) = ''ethernet''"
| "DeviceType (VirtualCdrom dev) = ''cdrom''"

fun IsController :: "BaseVirtualDevice \<Rightarrow> bool" where
  "IsController (VirtualIDEController dev) = True"
| "IsController (VirtualSCSIController kind dev) = True"
| "IsController dev = False"

function decimal :: "nat \<Rightarrow> string" where
  "decimal n =
     (if n < 10 then [''0123456789'' ! n]
      else decimal (n div 10) @ [''0123456789'' ! (n mod 10)])"
  by pat_completeness auto
termination
  by (relation "measure id") auto

declare decimal.simps [simp del]

definition itoa :: "int \<Rightarrow> string" where
  "itoa i = (if i < 0 then ''-'' @ decimal (nat (- i)) else decimal (nat i))"

definition zero_VirtualDevice :: VirtualDevice where
  "zero_VirtualDevice = \<lparr>Key = 0, Backing = None, ControllerKey = 0, UnitNumber = None\<rparr>"

definition govmomi_NewKey :: "VirtualDeviceList \<Rightarrow> int32" where
  "govmomi_NewKey l =
     fold (\<lambda>device key. if Key (GetVirtualDevice device) <s key
                         then Key (GetVirtualDevice device) else key) l (- 200) - 1"

definition govmomi_Name :: "BaseVirtualDevice \<Rightarrow> string" where
  "govmomi_Name device = DeviceType device @ ''-'' @ itoa (sint (Key (GetVirtualDevice device)))"

definition govmomi_Find :: "VirtualDeviceList \<Rightarrow> string \<Rightarrow> error + BaseVirtualDevice" where
  "govmomi_Find l name =
     (case filter (\<lambda>device. IsController device \<and> govmomi_Name device = name) l of
        [] \<Rightarrow> Inl (Error (name @ '' not found''))
      | c # cs \<Rightarrow> Inr c)"

definition govmomi_newUnitNumber :: "VirtualDeviceList \<Rightarrow> BaseVirtualDevice \<Rightarrow> int32" where
  "govmomi_newUnitNumber l c =
     (let used = map (\<lambda>device. UnitNumber (GetVirtualDevice device))
                   (filter (\<lambda>device. ControllerKey (GetVirtualDevice device)
                                       = Key (GetVirtualDevice c)) l)
      in case List.find (\<lambda>unit. Some (word_of_nat unit) \<notin> set used) [0 ..< 30] of
           None \<Rightarrow> - 1
         | Some unit \<Rightarrow> word_of_nat unit)"

definition govmomi :: Library where
  "govmomi =
     \<lparr>CreateIDEController = (\<lambda>l. Inr (VirtualIDEController (zero_VirtualDevice\<lparr>Key := govmomi_NewKey l\<rparr>))),
      CreateSCSIController = (\<lambda>l name.
        let name = (if name = ''scsi'' \<or> name = '''' then ''lsilogic'' else name)
        in if name \<in> set [''lsilogic'', ''buslogic'', ''pvscsi'', ''lsilogic-sas'']
           then Inr (VirtualSCSIController name (zero_VirtualDevice\<lparr>Key := govmomi_NewKey l\<rparr>))
           else Inl (Error (''unknown SCSI controller type '' @ name))),
      DeviceName = (\<lambda>l device. govmomi_Name device),
      FindDiskController = govmomi_Find,
      NewKey = govmomi_NewKey,
      AssignController = (\<lambda>l device c.
        WithVirtualDevice (\<lambda>dev. dev\<lparr>ControllerKey := Key (GetVirtualDevice c),
                                      UnitNumber := Some (govmomi_newUnitNumber l c),
                                      Key := (if Key dev = 0 then - 1 else Key dev)\<rparr>) device),
      CreateEthernetCard = (\<lambda>name backing.
        if name = '''' \<or> name = ''e1000''
        then Inr (VirtualEthernetCard (zero_VirtualDevice\<lparr>Key := - 1, Backing := Some backing\<rparr>))
        else Inl (Error (''unknown ethernet card type '' @ name))),
      ConfigSpec = (\<lambda>l op. (map (\<lambda>device. \<lparr>Operation = op, Device = device\<rparr>) l, None)),
      FindIDEController = (\<lambda>l name.
        case filter (\<lambda>device. DeviceType device = ''ide'') l of
          [] \<Rightarrow> Inl (Error ''no available IDE controller'')
        | c # cs \<Rightarrow> Inr c),
      CreateCdrom = (\<lambda>l c.
        Inr (WithVirtualDevice (\<lambda>dev. dev\<lparr>ControllerKey := Key (GetVirtualDevice c),
                                            UnitNumber := Some (govmomi_newUnitNumber l c),
                                            Key := - 1\<rparr>)
               (VirtualCdrom zero_VirtualDevice))),
      InsertIso = (\<lambda>l device iso.
        WithVirtualDevice (\<lambda>dev. dev\<lparr>Backing := Some (VirtualCdromIsoBackingInfo iso)\<rparr>) device)\<rparr>"

text \<open>
  Modelled from the spec: the lookup layer and the endpoint are external collaborators. In
  \<open>endpoint\<close> every lookup resolves the name it is given, no file exists, every task
  succeeds with a reference to a virtual machine, the machine \<open>vm-1\<close> is powered on and has no
  snapshot, and its device list holds one IDE controller. Single answers are changed with a
  record update where a run needs another endpoint.
\<close>

definition endpoint :: Driver where
  "endpoint =
     \<lparr>FindFolder = (\<lambda>w name. Inr (ManagedObjectReference ''Folder'' name)),
      FindResourcePool = (\<lambda>w host name. Inr (ManagedObjectReference ''ResourcePool'' name)),
      FindHost = (\<lambda>w name. Inr (ManagedObjectReference ''HostSystem'' name)),
      FindDatastoreOrDefault = (\<lambda>w name. Inr (ManagedObjectReference ''Datastore'' name)),
      FileExists = (\<lambda>w ds path. False),
      Path = (\<lambda>ds path. ''['' @ Value ds @ ''] '' @ path),
      DatastoreName = Value,
      NetworkOrDefault = (\<lambda>w name. Inr (ManagedObjectReference ''Network'' name)),
      EthernetCardBackingInfo = (\<lambda>w network. Inr (VirtualEthernetCardBackingInfo (Value network))),
      FolderCreateVM = (\<lambda>w folder spec pool host. Inr (ManagedObjectReference ''Task'' ''task-1'')),
      WaitForResult = (\<lambda>w task.
        Inr \<lparr>Result = AnyManagedObjectReference (ManagedObjectReference ''VirtualMachine'' ''vm-2'')\<rparr>),
      Properties = (\<lambda>w v ps. Inr \<lparr>mo_VirtualMachine.Snapshot = None\<rparr>),
      VMClone = (\<lambda>w v folder name spec. Inr (ManagedObjectReference ''Task'' ''task-2'')),
      PowerState = (\<lambda>w v. Inr ''poweredOn''),
      VMPowerOff = (\<lambda>w v. Inr (ManagedObjectReference ''Task'' ''task-3'')),
      VMDevice = (\<lambda>w v. Inr [VirtualIDEController (zero_VirtualDevice\<lparr>Key := 200\<rparr>)]),
      VMReconfigure = (\<lambda>w v spec. Inr (ManagedObjectReference ''Task'' ''task-4''))\<rparr>"

definition vm1 :: VirtualMachine where
  "vm1 = VirtualMachine (ManagedObjectReference ''VirtualMachine'' ''vm-1'')"

definition world0 :: world where
  "world0 = \<lparr>clock = 0, trace = []\<rparr>"

definition tpl1 :: CreateConfig where
  "tpl1 =
     \<lparr>HardwareConfig = \<lparr>CPUs = 2, CPUReservation = 0, CPULimit = 0, RAM = 2048,
                         RAMReservation = 0, RAMReserveAll = False\<rparr>,
      DiskConfig = \<lparr>DiskSizeKB = 20 * 1024 * 1024, ThinProvisioned = True,
                     ControllerType = ''pvscsi''\<rparr>,
      CreateConfig.Annotation = '''',
      CreateConfig.Name = ''tpl1'',
      CreateConfig.Folder = '''',
      CreateConfig.Host = ''esxi-1'',
      CreateConfig.ResourcePool = '''',
      CreateConfig.Datastore = ''datastore1'',
      GuestOS = ''otherGuest'',
      Network = ''VM Network'',
      Force = False\<rparr>"

definition clone1 :: CloneConfig where
  "clone1 =
     \<lparr>CloneConfig.Name = ''clone1'', CloneConfig.Folder = '''', CloneConfig.Host = ''esxi-1'',
      CloneConfig.ResourcePool = '''', CloneConfig.Datastore = ''datastore1'',
      LinkedClone = True\<rparr>"

definition scsi1 :: BaseVirtualDevice where
  "scsi1 = VirtualSCSIController ''pvscsi''
             \<lparr>Key = - 201, Backing = None, ControllerKey = 0, UnitNumber = None\<rparr>"

definition tpl1_size :: "int64 \<Rightarrow> CreateConfig" where
  "tpl1_size n = tpl1\<lparr>DiskConfig := (DiskConfig tpl1)\<lparr>DiskSizeKB := n\<rparr>\<rparr>"

definition snapshot7 :: ManagedObjectReference where
  "snapshot7 = ManagedObjectReference ''VirtualMachineSnapshot'' ''snapshot-7''"

definition endpoint_snapshot :: Driver where
  "endpoint_snapshot =
     endpoint\<lparr>Properties := \<lambda>w v ps.
       Inr \<lparr>mo_VirtualMachine.Snapshot = Some \<lparr>CurrentSnapshot = Some snapshot7\<rparr>\<rparr>\<rparr>"

definition library_failing_ConfigSpec :: Library where
  "library_failing_ConfigSpec =
     govmomi\<lparr>ConfigSpec := \<lambda>devices op. ([], Some (Error ''unsupported operation''))\<rparr>"

section \<open>Properties\<close>

subsection \<open>Running the library\<close>

lemma govmomi_simps:
  "CreateIDEController govmomi l
     = Inr (VirtualIDEController (zero_VirtualDevice\<lparr>Key := govmomi_NewKey l\<rparr>))"
  "CreateSCSIController govmomi l name =
     (let name = (if name = ''scsi'' \<or> name = '''' then ''lsilogic'' else name)
      in if name \<in> set [''lsilogic'', ''buslogic'', ''pvscsi'', ''lsilogic-sas'']
         then Inr (VirtualSCSIController name (zero_VirtualDevice\<lparr>Key := govmomi_NewKey l\<rparr>))
         else Inl (Error (''unknown SCSI controller type '' @ name)))"
  "DeviceName govmomi l device = govmomi_Name device"
  "FindDiskController govmomi = govmomi_Find"
  "NewKey govmomi = govmomi_NewKey"
  "AssignController govmomi l device c =
     WithVirtualDevice (\<lambda>dev. dev\<lparr>ControllerKey := Key (GetVirtualDevice c),
                                   UnitNumber := Some (govmomi_newUnitNumber l c),
                                   Key := (if Key dev = 0 then - 1 else Key dev)\<rparr>) device"
  "CreateEthernetCard govmomi name backing =
     (if name = '''' \<or> name = ''e1000''
      then Inr (VirtualEthernetCard (zero_VirtualDevice\<lparr>Key := - 1, Backing := Some backing\<rparr>))
      else Inl (Error (''unknown ethernet card type '' @ name)))"
  "ConfigSpec govmomi l op = (map (\<lambda>device. \<lparr>Operation = op, Device = device\<rparr>) l, None)"
  "FindIDEController govmomi l name =
     (case filter (\<lambda>device. DeviceType device = ''ide'') l of
        [] \<Rightarrow> Inl (Error ''no available IDE controller'')
      | c # cs \<Rightarrow> Inr c)"
  "CreateCdrom govmomi l c =
     Inr (WithVirtualDevice (\<lambda>dev. dev\<lparr>ControllerKey := Key (GetVirtualDevice c),
                                         UnitNumber := Some (govmomi_newUnitNumber l c),
                                         Key := - 1\<rparr>)
            (VirtualCdrom zero_VirtualDevice))"
  "InsertIso govmomi l device isoPath =
     WithVirtualDevice (\<lambda>dev. dev\<lparr>Backing := Some (VirtualCdromIsoBackingInfo isoPath)\<rparr>) device"
  by (simp_all add: govmomi_def)

lemma CreateSCSIController_pvscsi: "CreateSCSIController govmomi [] ''pvscsi'' = Inr scsi1"
  by (simp add: govmomi_simps govmomi_NewKey_def zero_VirtualDevice_def scsi1_def)

lemma Name_scsi1: "govmomi_Name scsi1 = ''pvscsi--201''"
  by (simp add: govmomi_Name_def itoa_def scsi1_def decimal.simps)

lemma Find_scsi1: "govmomi_Find [scsi1] ''pvscsi--201'' = Inr scsi1"
  by (simp add: govmomi_Find_def Name_scsi1) (simp add: scsi1_def)

lemma NewKey_scsi1: "govmomi_NewKey [scsi1] = - 202"
  by (simp add: govmomi_NewKey_def scsi1_def)

lemma newUnitNumber_scsi1: "govmomi_newUnitNumber [scsi1] scsi1 = 0"
  by (simp add: govmomi_newUnitNumber_def scsi1_def upt_conv_Cons)

subsection \<open>The spec compiler\<close>

lemmas toConfigSpec_defs = HardwareConfig_toConfigSpec_def CreateConfig_toConfigSpec_def
  VirtualMachineConfigSpec_zero_def ResourceAllocationInfo_zero_def

text \<open>
  C1 (as amended). Compiling a \<open>HardwareConfig\<close> copies the CPU limit into the CPU allocation of
  the \<open>ConfigSpec\<close> unchanged, beside the CPU reservation; the output for limit 0 differs from
  the output for limit 1 of the same configuration. The output type has no value of its own
  for "unlimited": limit 0 is compiled to the number 0.
\<close>

theorem HardwareConfig_toConfigSpec_limit:
  "CpuAllocation (HardwareConfig_toConfigSpec config)
     = Some \<lparr>Reservation = CPUReservation config, Limit = CPULimit config\<rparr>
   \<and> HardwareConfig_toConfigSpec (config\<lparr>CPULimit := 0\<rparr>)
       \<noteq> HardwareConfig_toConfigSpec (config\<lparr>CPULimit := 1\<rparr>)"
  by (simp add: toConfigSpec_defs)

text \<open>
  C1 as stated fails: the configuration of \<open>tpl1\<close> has limit 0, and its compiled CPU allocation
  holds the literal limit 0.
\<close>

theorem HardwareConfig_toConfigSpec_limit_zero_counterexample:
  "CPULimit (HardwareConfig tpl1) = 0
   \<and> CpuAllocation (HardwareConfig_toConfigSpec (HardwareConfig tpl1))
       = Some \<lparr>Reservation = 0, Limit = 0\<rparr>"
  by (simp add: toConfigSpec_defs tpl1_def)

text \<open>
  C7. Both compilers are functions of the configuration alone, given in closed form: the
  hardware compiler passes the CPU count, the memory size, the two reservations, the CPU
  limit and the reserve-all flag through unchanged and leaves every other field at its zero
  value; the create compiler is the hardware compiler on the embedded \<open>HardwareConfig\<close> with the
  name, the annotation and the guest identifier laid over it. So compiling a value twice
  gives the same output.
\<close>

theorem toConfigSpec_pure:
  "HardwareConfig_toConfigSpec config =
     \<lparr>NumCPUs = CPUs config, MemoryMB = RAM config,
      CpuAllocation = Some \<lparr>Reservation = CPUReservation config, Limit = CPULimit config\<rparr>,
      MemoryAllocation = Some \<lparr>Reservation = RAMReservation config, Limit = 0\<rparr>,
      MemoryReservationLockedToMax = Some (RAMReserveAll config),
      VirtualMachineConfigSpec.Name = '''', VirtualMachineConfigSpec.Annotation = '''',
      GuestId = '''', DeviceChange = [], Files = None\<rparr>
   \<and> CreateConfig_toConfigSpec create =
       (HardwareConfig_toConfigSpec (HardwareConfig create))
         \<lparr>VirtualMachineConfigSpec.Name := CreateConfig.Name create,
          VirtualMachineConfigSpec.Annotation := CreateConfig.Annotation create,
          GuestId := GuestOS create\<rparr>"
  by (simp add: toConfigSpec_defs)

subsection \<open>The device composer\<close>

lemma addDisk_zero:
  assumes "DiskSizeKB (DiskConfig config) = 0"
  shows "\<exists>err. addDisk l devices config = Inl err"
  using assms by (simp add: addDisk_def Let_def split: sum.splits)

lemma addDisk_zero_not_implemented:
  assumes "DiskSizeKB (DiskConfig config) = 0"
    and "CreateSCSIController l devices (ControllerType (DiskConfig config)) = Inr device"
    and "FindDiskController l (devices @ [device]) (DeviceName l (devices @ [device]) device)
           = Inr controller"
  shows "addDisk l devices config = Inl (Error ''not implemented'')"
  using assms by (simp add: addDisk_def Let_def)

lemma addDisk_Inr:
  assumes "addDisk l devices config = Inr devices'"
  shows "DiskSizeKB (DiskConfig config) \<noteq> 0 \<and>
    (\<exists>device controller. 
      CreateSCSIController l devices (ControllerType (DiskConfig config)) = Inr device \<and>
      FindDiskController l (devices @ [device]) (DeviceName l (devices @ [device]) device) = Inr controller \<and>
      devices' = devices @ [device,
         AssignController l (devices @ [device])
           (VirtualDisk \<lparr>Key = NewKey l (devices @ [device]),
               Backing = Some (VirtualDiskFlatVer2BackingInfo ''persistent''
                                 (Some (ThinProvisioned (DiskConfig config)))),
               ControllerKey = 0, UnitNumber = None\<rparr>
              (DiskSizeKB (DiskConfig config))) controller])"
proof (cases "CreateSCSIController l devices (ControllerType (DiskConfig config))")
  case (Inl err)
  with assms show ?thesis by (simp add: addDisk_def)
next
  case (Inr device)
  note dev = this
  show ?thesis
  proof (cases "FindDiskController l (devices @ [device]) (DeviceName l (devices @ [device]) device)")
    case (Inl err)
    with assms dev show ?thesis by (simp add: addDisk_def Let_def)
  next
    case (Inr controller)
    with assms dev show ?thesis
      by (simp add: addDisk_def Let_def VirtualDiskModePersistent_def split: if_splits)
  qed
qed

lemma tpl1_size_simps:
  "DiskSizeKB (DiskConfig (tpl1_size n)) = n"
  "ControllerType (DiskConfig (tpl1_size n)) = ''pvscsi''"
  "ThinProvisioned (DiskConfig (tpl1_size n)) = True"
  by (simp_all add: tpl1_size_def tpl1_def)

lemma AssignController_scsi1:
  "AssignController govmomi [scsi1]
     (VirtualDisk \<lparr>Key = k, Backing = b, ControllerKey = 0, UnitNumber = None\<rparr> n) scsi1
   = VirtualDisk \<lparr>Key = (if k = 0 then - 1 else k), Backing = b, ControllerKey = - 201,
                  UnitNumber = Some 0\<rparr> n"
  by (simp add: govmomi_simps newUnitNumber_scsi1) (simp add: scsi1_def)

lemma addDisk_pvscsi:
  "n \<noteq> 0 \<Longrightarrow>
   addDisk govmomi [] (tpl1_size n)
     = Inr [scsi1,
            VirtualDisk
              \<lparr>Key = - 202,
               Backing = Some (VirtualDiskFlatVer2BackingInfo ''persistent'' (Some True)),
               ControllerKey = - 201, UnitNumber = Some 0\<rparr>
              n]"
  by (simp add: addDisk_def tpl1_size_simps CreateSCSIController_pvscsi Name_scsi1 Find_scsi1
      NewKey_scsi1 govmomi_simps(3,4,5) VirtualDiskModePersistent_def AssignController_scsi1)

text \<open>
  C2 (as amended). For every \<open>CreateConfig\<close> with \<open>DiskSizeKB = 0\<close>, \<open>addDisk\<close> fails and
  returns no device list, with the error "not implemented" once the controller has been
  created and found; so a zero-size disk is never created. Whenever \<open>addDisk\<close> returns a list,
  the size is not zero and the list is the old one followed by the new controller and by the
  disk of the configured size, bound to the controller that was found. A negative size is not
  refused.
\<close>

theorem addDisk_size_zero:
  "(DiskSizeKB (DiskConfig config) = 0 \<longrightarrow>
      (\<exists>err. addDisk l devices config = Inl err)
      \<and> (\<forall>device controller.
            CreateSCSIController l devices (ControllerType (DiskConfig config)) = Inr device
            \<longrightarrow> FindDiskController l (devices @ [device])
                   (DeviceName l (devices @ [device]) device) = Inr controller
            \<longrightarrow> addDisk l devices config = Inl (Error ''not implemented'')))
   \<and> (\<forall>devices'. addDisk l devices config = Inr devices' \<longrightarrow>
         DiskSizeKB (DiskConfig config) \<noteq> 0
         \<and> (\<exists>device controller.
              CreateSCSIController l devices (ControllerType (DiskConfig config)) = Inr device
              \<and> FindDiskController l (devices @ [device])
                    (DeviceName l (devices @ [device]) device) = Inr controller
              \<and> devices' = devices @ [device,
                   AssignController l (devices @ [device])
                     (VirtualDisk
                        \<lparr>Key = NewKey l (devices @ [device]),
                         Backing = Some (VirtualDiskFlatVer2BackingInfo ''persistent''
                                           (Some (ThinProvisioned (DiskConfig config)))),
                         ControllerKey = 0, UnitNumber = None\<rparr>
                        (DiskSizeKB (DiskConfig config)))
                     controller]))"
  using addDisk_zero addDisk_zero_not_implemented addDisk_Inr by blast

theorem addDisk_size_zero_witness:
  "DiskSizeKB (DiskConfig (tpl1_size 0)) = 0
   \<and> addDisk govmomi [] (tpl1_size 0) = Inl (Error ''not implemented'')
   \<and> addDisk govmomi [] (tpl1_size 20971520)
       = Inr [scsi1,
              VirtualDisk
                \<lparr>Key = - 202,
                 Backing = Some (VirtualDiskFlatVer2BackingInfo ''persistent'' (Some True)),
                 ControllerKey = - 201, UnitNumber = Some 0\<rparr>
                20971520]
   \<and> DiskSizeKB (DiskConfig (tpl1_size 20971520)) \<noteq> 0"
proof -
  have 1: "CreateSCSIController govmomi [] (ControllerType (DiskConfig (tpl1_size n))) = Inr scsi1"
    for n
    by (simp add: tpl1_size_simps CreateSCSIController_pvscsi)
  have 2: "FindDiskController govmomi ([] @ [scsi1]) (DeviceName govmomi ([] @ [scsi1]) scsi1)
             = Inr scsi1"
    by (simp add: govmomi_simps Name_scsi1 Find_scsi1)
  from addDisk_size_zero [of "tpl1_size 0" govmomi "[]"] 1 2
  have a: "addDisk govmomi [] (tpl1_size 0) = Inl (Error ''not implemented'')"
    by (simp add: tpl1_size_simps)
  have b: "addDisk govmomi [] (tpl1_size 20971520)
       = Inr [scsi1,
              VirtualDisk
                \<lparr>Key = - 202,
                 Backing = Some (VirtualDiskFlatVer2BackingInfo ''persistent'' (Some True)),
                 ControllerKey = - 201, UnitNumber = Some 0\<rparr>
                20971520]"
    by (simp add: addDisk_pvscsi)
  with addDisk_size_zero [of "tpl1_size 20971520" govmomi "[]"]
  have c: "DiskSizeKB (DiskConfig (tpl1_size 20971520)) \<noteq> 0"
    by blast
  from a b c show ?thesis by (simp add: tpl1_size_simps)
qed

text \<open>
  C2 as stated fails: with \<open>DiskSizeKB = -1\<close> and a supported controller type, \<open>addDisk\<close>
  succeeds and appends a disk of capacity -1.
\<close>

theorem addDisk_negative_size_counterexample:
  "DiskSizeKB (DiskConfig (tpl1_size (- 1))) \<le>s 0
   \<and> addDisk govmomi [] (tpl1_size (- 1))
       = Inr [scsi1,
              VirtualDisk
                \<lparr>Key = - 202,
                 Backing = Some (VirtualDiskFlatVer2BackingInfo ''persistent'' (Some True)),
                 ControllerKey = - 201, UnitNumber = Some 0\<rparr>
                (- 1)]"
  by (simp add: addDisk_pvscsi tpl1_size_simps)

subsection \<open>Lifecycle operations: traces and results\<close>

lemma calls_since_append [simp]:
  "calls_since w0 (w0\<lparr>trace := trace w0 @ cs\<rparr>) = cs"
  by (simp add: calls_since_def)

lemma calls_since_self [simp]: "calls_since w0 w0 = []"
  by (simp add: calls_since_def)

lemma CreateVM_existing_file_general:
  assumes "\<not> Force config"
    and "\<And>w w' datastore.
           FindDatastoreOrDefault d w (CreateConfig.Datastore config) = Inr datastore \<Longrightarrow>
           FileExists d w' datastore
             (CreateConfig.Name config @ ''/'' @ CreateConfig.Name config @ ''.vmx'')"
  shows "(\<exists>err. fst (CreateVM l d w0 config) = Inl err)
         \<and> \<not> list_ex submits_task (calls_since w0 (snd (CreateVM l d w0 config)))"
  using assms
  by (auto simp add: CreateVM_def remote_def Let_def split: sum.splits prod.splits bool.splits)

lemma endpoint_simps:
  "FindFolder endpoint w name = Inr (ManagedObjectReference ''Folder'' name)"
  "FindResourcePool endpoint w hostName name = Inr (ManagedObjectReference ''ResourcePool'' name)"
  "FindHost endpoint w name = Inr (ManagedObjectReference ''HostSystem'' name)"
  "FindDatastoreOrDefault endpoint w name = Inr (ManagedObjectReference ''Datastore'' name)"
  "FileExists endpoint w ds path = False"
  "Path endpoint ds path = ''['' @ Value ds @ ''] '' @ path"
  "DatastoreName endpoint = Value"
  "NetworkOrDefault endpoint w name = Inr (ManagedObjectReference ''Network'' name)"
  "EthernetCardBackingInfo endpoint w network = Inr (VirtualEthernetCardBackingInfo (Value network))"
  "FolderCreateVM endpoint w folder spec pool host = Inr (ManagedObjectReference ''Task'' ''task-1'')"
  "WaitForResult endpoint w task =
     Inr \<lparr>Result = AnyManagedObjectReference (ManagedObjectReference ''VirtualMachine'' ''vm-2'')\<rparr>"
  "Properties endpoint w v ps = Inr \<lparr>mo_VirtualMachine.Snapshot = None\<rparr>"
  "VMClone endpoint w v folder name cloneSpec = Inr (ManagedObjectReference ''Task'' ''task-2'')"
  "PowerState endpoint w v = Inr ''poweredOn''"
  "VMPowerOff endpoint w v = Inr (ManagedObjectReference ''Task'' ''task-3'')"
  "VMDevice endpoint w v = Inr [VirtualIDEController (zero_VirtualDevice\<lparr>Key := 200\<rparr>)]"
  "VMReconfigure endpoint w v spec = Inr (ManagedObjectReference ''Task'' ''task-4'')"
  by (simp_all add: endpoint_def)

lemma CreateVM_existing_file_exact:
  assumes "\<not> Force config"
    and "\<And>w. FindFolder d w (CreateConfig.Folder config) = Inr folder"
    and "\<And>w. FindResourcePool d w (CreateConfig.Host config) (CreateConfig.ResourcePool config)
              = Inr resourcePool"
    and "\<And>w. FindHost d w (CreateConfig.Host config) = Inr host"
    and "\<And>w. FindDatastoreOrDefault d w (CreateConfig.Datastore config) = Inr datastore"
    and "\<And>w. FileExists d w datastore
             (CreateConfig.Name config @ ''/'' @ CreateConfig.Name config @ ''.vmx'')"
  shows "CreateVM l d w0 config =
    (Inl (Error (''File '' @ [CHR 0x27]
                 @ Path d datastore
                     (CreateConfig.Name config @ ''/'' @ CreateConfig.Name config @ ''.vmx'')
                 @ [CHR 0x27] @ '' already exists'')),
     w0\<lparr>trace := trace w0 @
        [CallFindFolder (CreateConfig.Folder config),
         CallFindResourcePool (CreateConfig.Host config) (CreateConfig.ResourcePool config),
         CallFindHost (CreateConfig.Host config),
         CallFindDatastoreOrDefault (CreateConfig.Datastore config),
         CallFileExists datastore
           (CreateConfig.Name config @ ''/'' @ CreateConfig.Name config @ ''.vmx'')]\<rparr>)"
  using assms
  by (simp add: CreateVM_def remote_def Let_def)

text \<open>
  C3. For every \<open>CreateConfig\<close> with \<open>Force = false\<close> whose file \<open>Name/Name.vmx\<close> exists on
  whatever datastore the lookup resolves, \<open>CreateVM\<close> returns an error and the calls it has
  made submit no task. When the four lookups succeed, the error is the "already exists"
  error for the datastore path and the calls are exactly the four lookups followed by the
  existence check: the check comes before any device is composed and before any creation.
\<close>

theorem CreateVM_existing_file:
  "\<not> Force config \<longrightarrow>
   (\<forall>w w' datastore.
      FindDatastoreOrDefault d w (CreateConfig.Datastore config) = Inr datastore \<longrightarrow>
      FileExists d w' datastore
        (CreateConfig.Name config @ ''/'' @ CreateConfig.Name config @ ''.vmx'')) \<longrightarrow>
   (\<exists>err. fst (CreateVM l d w0 config) = Inl err)
   \<and> \<not> list_ex submits_task (calls_since w0 (snd (CreateVM l d w0 config)))
   \<and> ((\<forall>w. FindFolder d w (CreateConfig.Folder config) = Inr folder)
        \<and> (\<forall>w. FindResourcePool d w (CreateConfig.Host config)
                   (CreateConfig.ResourcePool config) = Inr resourcePool)
        \<and> (\<forall>w. FindHost d w (CreateConfig.Host config) = Inr host)
        \<and> (\<forall>w. FindDatastoreOrDefault d w (CreateConfig.Datastore config) = Inr datastore)
      \<longrightarrow> CreateVM l d w0 config =
            (Inl (Error (''File '' @ [CHR 0x27]
                         @ Path d datastore
                             (CreateConfig.Name config @ ''/'' @ CreateConfig.Name config
                              @ ''.vmx'')
                         @ [CHR 0x27] @ '' already exists'')),
             w0\<lparr>trace := trace w0 @
                [CallFindFolder (CreateConfig.Folder config),
                 CallFindResourcePool (CreateConfig.Host config)
                   (CreateConfig.ResourcePool config),
                 CallFindHost (CreateConfig.Host config),
                 CallFindDatastoreOrDefault (CreateConfig.Datastore config),
                 CallFileExists datastore
                   (CreateConfig.Name config @ ''/'' @ CreateConfig.Name config
                    @ ''.vmx'')]\<rparr>))"
proof (intro impI conjI)
  assume f: "\<not> Force config"
    and e: "\<forall>w w' datastore.
      FindDatastoreOrDefault d w (CreateConfig.Datastore config) = Inr datastore \<longrightarrow>
      FileExists d w' datastore
        (CreateConfig.Name config @ ''/'' @ CreateConfig.Name config @ ''.vmx'')"
  from CreateVM_existing_file_general [of config d l w0] f e
  show "\<exists>err. fst (CreateVM l d w0 config) = Inl err"
    and "\<not> list_ex submits_task (calls_since w0 (snd (CreateVM l d w0 config)))"
    by blast+
  assume "(\<forall>w. FindFolder d w (CreateConfig.Folder config) = Inr folder)
        \<and> (\<forall>w. FindResourcePool d w (CreateConfig.Host config)
                   (CreateConfig.ResourcePool config) = Inr resourcePool)
        \<and> (\<forall>w. FindHost d w (CreateConfig.Host config) = Inr host)
        \<and> (\<forall>w. FindDatastoreOrDefault d w (CreateConfig.Datastore config) = Inr datastore)"
  with f e show "CreateVM l d w0 config =
            (Inl (Error (''File '' @ [CHR 0x27]
                         @ Path d datastore
                             (CreateConfig.Name config @ ''/'' @ CreateConfig.Name config
                              @ ''.vmx'')
                         @ [CHR 0x27] @ '' already exists'')),
             w0\<lparr>trace := trace w0 @
                [CallFindFolder (CreateConfig.Folder config),
                 CallFindResourcePool (CreateConfig.Host config)
                   (CreateConfig.ResourcePool config),
                 CallFindHost (CreateConfig.Host config),
                 CallFindDatastoreOrDefault (CreateConfig.Datastore config),
                 CallFileExists datastore
                   (CreateConfig.Name config @ ''/'' @ CreateConfig.Name config
                    @ ''.vmx'')]\<rparr>)"
    by (intro CreateVM_existing_file_exact) auto
qed

theorem CreateVM_existing_file_witness:
  "\<not> Force tpl1
   \<and> CreateVM govmomi (endpoint\<lparr>FileExists := \<lambda>w ds path. True\<rparr>) world0 tpl1 =
       (Inl (Error (''File '' @ [CHR 0x27] @ ''[datastore1] tpl1/tpl1.vmx'' @ [CHR 0x27]
                    @ '' already exists'')),
        \<lparr>clock = 0,
         trace = [CallFindFolder '''', CallFindResourcePool ''esxi-1'' '''',
                  CallFindHost ''esxi-1'', CallFindDatastoreOrDefault ''datastore1'',
                  CallFileExists (ManagedObjectReference ''Datastore'' ''datastore1'')
                    ''tpl1/tpl1.vmx'']\<rparr>)"
  using CreateVM_existing_file
    [of tpl1 "endpoint\<lparr>FileExists := \<lambda>w ds path. True\<rparr>"
        govmomi world0 "ManagedObjectReference ''Folder'' ''''"
        "ManagedObjectReference ''ResourcePool'' ''''"
        "ManagedObjectReference ''HostSystem'' ''esxi-1''"
        "ManagedObjectReference ''Datastore'' ''datastore1''"]
  by (simp add: endpoint_simps tpl1_def world0_def)


lemma PowerOff_already_off:
  assumes "PowerState d w0 (vm v) = Inr ''poweredOff''"
  shows "PowerOff d w0 v = (None, w0\<lparr>trace := trace w0 @ [CallPowerState (vm v)]\<rparr>)"
  using assms
  by (simp add: PowerOff_def remote_def VirtualMachinePowerStatePoweredOff_def)

lemma PowerOff_read_error:
  assumes "PowerState d w0 (vm v) = Inl err"
  shows "PowerOff d w0 v = (Some err, w0\<lparr>trace := trace w0 @ [CallPowerState (vm v)]\<rparr>)"
  using assms by (simp add: PowerOff_def remote_def)

lemma PowerOff_not_off:
  assumes "PowerState d w0 (vm v) = Inr state" and "state \<noteq> ''poweredOff''"
  shows "PowerOff d w0 v =
    (let w1 = w0\<lparr>trace := trace w0 @ [CallPowerState (vm v)]\<rparr>;
         w2 = w0\<lparr>trace := trace w0 @ [CallPowerState (vm v), CallPowerOff (vm v)]\<rparr>
     in case VMPowerOff d w1 (vm v) of
          Inl err \<Rightarrow> (Some err, w2)
        | Inr task \<Rightarrow>
            (case WaitForResult d w2 task of
               Inl err \<Rightarrow> (Some err, w2\<lparr>trace := trace w2 @ [CallWaitForResult task]\<rparr>)
             | Inr info \<Rightarrow> (None, w2\<lparr>trace := trace w2 @ [CallWaitForResult task]\<rparr>)))"
  using assms
  by (simp add: PowerOff_def remote_def VirtualMachinePowerStatePoweredOff_def Let_def
      split: sum.splits)

lemma PowerOff_reads_first:
  "take 1 (calls_since w0 (snd (PowerOff d w0 v))) = [CallPowerState (vm v)]"
  by (simp add: PowerOff_def remote_def split: sum.splits)

text \<open>
  C5. The first call of \<open>PowerOff\<close> is always the read of the power state. If the answer is
  "poweredOff", \<open>PowerOff\<close> returns \<^verbatim>\<open>nil\<close> and that read is its only call: no task is
  submitted. For any other state it submits the power-off task and, if the submission is
  accepted, waits for its result; the error of the submission or of the wait is what it
  returns.
\<close>

theorem PowerOff_idempotent:
  "take 1 (calls_since w0 (snd (PowerOff d w0 v))) = [CallPowerState (vm v)]
   \<and> (PowerState d w0 (vm v) = Inr ''poweredOff'' \<longrightarrow>
        PowerOff d w0 v = (None, w0\<lparr>trace := trace w0 @ [CallPowerState (vm v)]\<rparr>))
   \<and> (\<forall>state. PowerState d w0 (vm v) = Inr state \<longrightarrow> state \<noteq> ''poweredOff'' \<longrightarrow>
        PowerOff d w0 v =
          (let w1 = w0\<lparr>trace := trace w0 @ [CallPowerState (vm v)]\<rparr>;
               w2 = w0\<lparr>trace := trace w0 @ [CallPowerState (vm v), CallPowerOff (vm v)]\<rparr>
           in case VMPowerOff d w1 (vm v) of
                Inl err \<Rightarrow> (Some err, w2)
              | Inr task \<Rightarrow>
                  (case WaitForResult d w2 task of
                     Inl err \<Rightarrow> (Some err, w2\<lparr>trace := trace w2 @ [CallWaitForResult task]\<rparr>)
                   | Inr info \<Rightarrow> (None, w2\<lparr>trace := trace w2 @ [CallWaitForResult task]\<rparr>))))"
  using PowerOff_reads_first PowerOff_already_off PowerOff_not_off by blast


theorem PowerOff_idempotent_witness:
  "PowerState (endpoint\<lparr>PowerState := \<lambda>w v. Inr ''poweredOff''\<rparr>) world0 (vm vm1)
     = Inr ''poweredOff''
   \<and> PowerOff (endpoint\<lparr>PowerState := \<lambda>w v. Inr ''poweredOff''\<rparr>) world0 vm1
       = (None, \<lparr>clock = 0, trace = [CallPowerState (vm vm1)]\<rparr>)
   \<and> PowerOff endpoint world0 vm1
       = (None, \<lparr>clock = 0,
                 trace = [CallPowerState (vm vm1), CallPowerOff (vm vm1),
                          CallWaitForResult (ManagedObjectReference ''Task'' ''task-3'')]\<rparr>)"
proof -
  have a: "PowerState (endpoint\<lparr>PowerState := \<lambda>w v. Inr ''poweredOff''\<rparr>) world0 (vm vm1)
     = Inr ''poweredOff''"
    by simp
  with PowerOff_idempotent [of world0 "endpoint\<lparr>PowerState := \<lambda>w v. Inr ''poweredOff''\<rparr>" vm1]
  have b: "PowerOff (endpoint\<lparr>PowerState := \<lambda>w v. Inr ''poweredOff''\<rparr>) world0 vm1
       = (None, \<lparr>clock = 0, trace = [CallPowerState (vm vm1)]\<rparr>)"
    by (simp add: world0_def)
  have "PowerState endpoint world0 (vm vm1) = Inr ''poweredOn''"
    by (simp add: endpoint_simps)
  with PowerOff_idempotent [of world0 endpoint vm1]
  have c: "PowerOff endpoint world0 vm1
       = (None, \<lparr>clock = 0,
                 trace = [CallPowerState (vm vm1), CallPowerOff (vm vm1),
                          CallWaitForResult (ManagedObjectReference ''Task'' ''task-3'')]\<rparr>)"
    by (simp add: world0_def endpoint_simps)
  from a b c show ?thesis by simp
qed

lemma Clone_no_snapshot_general:
  assumes "LinkedClone config"
    and "\<And>w info. Properties d w (vm template) [''snapshot''] = Inr info \<Longrightarrow>
           mo_VirtualMachine.Snapshot info = None"
  shows "(\<exists>err. fst (Clone d w0 template config) = Inl err)
         \<and> \<not> list_ex submits_task (calls_since w0 (snd (Clone d w0 template config)))"
  using assms
  by (auto simp add: Clone_def Info_def remote_def Let_def
      split: sum.splits prod.splits option.splits)

lemma Clone_no_snapshot_exact:
  assumes "LinkedClone config"
    and "\<And>w. FindFolder d w (CloneConfig.Folder config) = Inr folder"
    and "\<And>w. FindResourcePool d w (CloneConfig.Host config) (CloneConfig.ResourcePool config)
              = Inr pool"
    and "\<And>w. FindDatastoreOrDefault d w (CloneConfig.Datastore config) = Inr datastore"
    and "\<And>w. Properties d w (vm template) [''snapshot''] = Inr info"
    and "mo_VirtualMachine.Snapshot info = None"
  shows "Clone d w0 template config =
    (Inl (Error ''`linked_clone=true`, but template has no snapshots''),
     w0\<lparr>trace := trace w0 @
        [CallFindFolder (CloneConfig.Folder config),
         CallFindResourcePool (CloneConfig.Host config) (CloneConfig.ResourcePool config),
         CallFindDatastoreOrDefault (CloneConfig.Datastore config),
         CallProperties (vm template) [''snapshot'']]\<rparr>)"
  using assms
  by (simp add: Clone_def Info_def remote_def Let_def)

lemma Clone_linked_spec:
  assumes "LinkedClone config"
    and "CallClone v folder name cloneSpec
           \<in> set (calls_since w0 (snd (Clone d w0 template config)))"
  shows "DiskMoveType (Location cloneSpec) = ''createNewChildDiskBacking''
         \<and> (\<exists>w info snapshot.
               Properties d w (vm template) [''snapshot''] = Inr info
               \<and> mo_VirtualMachine.Snapshot info = Some snapshot
               \<and> VirtualMachineCloneSpec.Snapshot cloneSpec = CurrentSnapshot snapshot)"
  using assms
  by (auto simp add: Clone_def Info_def remote_def Let_def
      split: sum.splits prod.splits option.splits AnyType.splits) blast+

lemma Clone_linked_exact:
  assumes "LinkedClone config"
    and "\<And>w. FindFolder d w (CloneConfig.Folder config) = Inr folder"
    and "\<And>w. FindResourcePool d w (CloneConfig.Host config) (CloneConfig.ResourcePool config)
              = Inr pool"
    and "\<And>w. FindDatastoreOrDefault d w (CloneConfig.Datastore config) = Inr datastore"
    and "\<And>w. Properties d w (vm template) [''snapshot''] = Inr info"
    and "mo_VirtualMachine.Snapshot info = Some snapshot"
  shows "take 5 (calls_since w0 (snd (Clone d w0 template config))) =
        [CallFindFolder (CloneConfig.Folder config),
         CallFindResourcePool (CloneConfig.Host config) (CloneConfig.ResourcePool config),
         CallFindDatastoreOrDefault (CloneConfig.Datastore config),
         CallProperties (vm template) [''snapshot''],
         CallClone (vm template) folder (CloneConfig.Name config)
           \<lparr>Location = \<lparr>Pool = Some pool,
                         VirtualMachineRelocateSpec.Datastore = Some datastore,
                         DiskMoveType = ''createNewChildDiskBacking''\<rparr>,
            PowerOn = False,
            VirtualMachineCloneSpec.Snapshot = CurrentSnapshot snapshot\<rparr>]"
  using assms
  by (simp add: Clone_def Info_def remote_def Let_def split: sum.splits AnyType.splits)

lemma Clone_PowerOn_False:
  assumes "CallClone v folder name cloneSpec
           \<in> set (calls_since w0 (snd (Clone d w0 template config)))"
  shows "PowerOn cloneSpec = False"
  using assms
  by (auto simp add: Clone_def Info_def remote_def Let_def
      split: sum.splits prod.splits option.splits AnyType.splits if_splits)

lemma AddCdrom_ignores_error:
  "AddCdrom l d w0 v isoPath =
   AddCdrom (l\<lparr>ConfigSpec := \<lambda>devices op. (fst (ConfigSpec l devices op), None)\<rparr>) d w0 v isoPath"
  by (simp add: AddCdrom_def Let_def split: prod.splits sum.splits)

lemma AddCdrom_submits:
  assumes "VMDevice d w0 (vm v) = Inr devices"
    and "FindIDEController l devices '''' = Inr ide"
    and "CreateCdrom l devices ide = Inr cdrom"
    and "ConfigSpec l [InsertIso l devices cdrom isoPath] ''add'' = (deviceChange, err)"
  shows "take 2 (calls_since w0 (snd (AddCdrom l d w0 v isoPath))) =
         [CallDevice (vm v),
          CallReconfigure (vm v) (VirtualMachineConfigSpec_zero\<lparr>DeviceChange := deviceChange\<rparr>)]"
  using assms
  by (simp add: AddCdrom_def remote_def Let_def VirtualDeviceConfigSpecOperationAdd_def
      split: sum.splits)


text \<open>
  C4. Let \<open>LinkedClone = true\<close>. If the template has no snapshot whenever its snapshot
  property is read, \<open>Clone\<close> returns an error and submits no task; when the three lookups and
  the read succeed, the error is the "no snapshots" error and the calls are the lookups and
  the read alone. If the read finds a snapshot, the fifth call is the clone task, with disk
  move type \<open>createNewChildDiskBacking\<close> and the template's current snapshot. Every clone task
  that a linked clone submits has that disk move type and the current snapshot of a snapshot
  info that was read from the template.
\<close>

theorem Clone_linked:
  "LinkedClone config \<longrightarrow>
   ((\<forall>w info. Properties d w (vm template) [''snapshot''] = Inr info \<longrightarrow>
        mo_VirtualMachine.Snapshot info = None) \<longrightarrow>
      (\<exists>err. fst (Clone d w0 template config) = Inl err)
      \<and> \<not> list_ex submits_task (calls_since w0 (snd (Clone d w0 template config))))
   \<and> ((\<forall>w. FindFolder d w (CloneConfig.Folder config) = Inr folder)
        \<and> (\<forall>w. FindResourcePool d w (CloneConfig.Host config)
                   (CloneConfig.ResourcePool config) = Inr pool)
        \<and> (\<forall>w. FindDatastoreOrDefault d w (CloneConfig.Datastore config) = Inr datastore)
        \<and> (\<forall>w. Properties d w (vm template) [''snapshot''] = Inr info)
      \<longrightarrow>
        (mo_VirtualMachine.Snapshot info = None \<longrightarrow>
           Clone d w0 template config =
             (Inl (Error ''`linked_clone=true`, but template has no snapshots''),
              w0\<lparr>trace := trace w0 @
                 [CallFindFolder (CloneConfig.Folder config),
                  CallFindResourcePool (CloneConfig.Host config)
                    (CloneConfig.ResourcePool config),
                  CallFindDatastoreOrDefault (CloneConfig.Datastore config),
                  CallProperties (vm template) [''snapshot'']]\<rparr>))
        \<and> (\<forall>snapshot. mo_VirtualMachine.Snapshot info = Some snapshot \<longrightarrow>
             take 5 (calls_since w0 (snd (Clone d w0 template config))) =
               [CallFindFolder (CloneConfig.Folder config),
                CallFindResourcePool (CloneConfig.Host config)
                  (CloneConfig.ResourcePool config),
                CallFindDatastoreOrDefault (CloneConfig.Datastore config),
                CallProperties (vm template) [''snapshot''],
                CallClone (vm template) folder (CloneConfig.Name config)
                  \<lparr>Location = \<lparr>Pool = Some pool,
                                VirtualMachineRelocateSpec.Datastore = Some datastore,
                                DiskMoveType = ''createNewChildDiskBacking''\<rparr>,
                   PowerOn = False,
                   VirtualMachineCloneSpec.Snapshot = CurrentSnapshot snapshot\<rparr>]))
   \<and> (\<forall>v folder' name cloneSpec.
         CallClone v folder' name cloneSpec
           \<in> set (calls_since w0 (snd (Clone d w0 template config))) \<longrightarrow>
         DiskMoveType (Location cloneSpec) = ''createNewChildDiskBacking''
         \<and> (\<exists>w info snapshot.
               Properties d w (vm template) [''snapshot''] = Inr info
               \<and> mo_VirtualMachine.Snapshot info = Some snapshot
               \<and> VirtualMachineCloneSpec.Snapshot cloneSpec = CurrentSnapshot snapshot))"
proof (intro impI conjI allI)
  assume l: "LinkedClone config"
  {
    assume "\<forall>w info. Properties d w (vm template) [''snapshot''] = Inr info \<longrightarrow>
              mo_VirtualMachine.Snapshot info = None"
    with Clone_no_snapshot_general [of config d template w0] l
    show "\<exists>err. fst (Clone d w0 template config) = Inl err"
      and "\<not> list_ex submits_task (calls_since w0 (snd (Clone d w0 template config)))"
      by blast+
  }
  {
    assume ok: "(\<forall>w. FindFolder d w (CloneConfig.Folder config) = Inr folder)
        \<and> (\<forall>w. FindResourcePool d w (CloneConfig.Host config)
                   (CloneConfig.ResourcePool config) = Inr pool)
        \<and> (\<forall>w. FindDatastoreOrDefault d w (CloneConfig.Datastore config) = Inr datastore)
        \<and> (\<forall>w. Properties d w (vm template) [''snapshot''] = Inr info)"
    {
      assume "mo_VirtualMachine.Snapshot info = None"
      with l ok show "Clone d w0 template config =
             (Inl (Error ''`linked_clone=true`, but template has no snapshots''),
              w0\<lparr>trace := trace w0 @
                 [CallFindFolder (CloneConfig.Folder config),
                  CallFindResourcePool (CloneConfig.Host config)
                    (CloneConfig.ResourcePool config),
                  CallFindDatastoreOrDefault (CloneConfig.Datastore config),
                  CallProperties (vm template) [''snapshot'']]\<rparr>)"
        by (intro Clone_no_snapshot_exact) auto
    }
    {
      fix snapshot
      assume "mo_VirtualMachine.Snapshot info = Some snapshot"
      with l ok show "take 5 (calls_since w0 (snd (Clone d w0 template config))) =
               [CallFindFolder (CloneConfig.Folder config),
                CallFindResourcePool (CloneConfig.Host config)
                  (CloneConfig.ResourcePool config),
                CallFindDatastoreOrDefault (CloneConfig.Datastore config),
                CallProperties (vm template) [''snapshot''],
                CallClone (vm template) folder (CloneConfig.Name config)
                  \<lparr>Location = \<lparr>Pool = Some pool,
                                VirtualMachineRelocateSpec.Datastore = Some datastore,
                                DiskMoveType = ''createNewChildDiskBacking''\<rparr>,
                   PowerOn = False,
                   VirtualMachineCloneSpec.Snapshot = CurrentSnapshot snapshot\<rparr>]"
        by (intro Clone_linked_exact) auto
    }
  }
  {
    fix v folder' name cloneSpec
    assume "CallClone v folder' name cloneSpec
           \<in> set (calls_since w0 (snd (Clone d w0 template config)))"
    from Clone_linked_spec [OF l this]
    show "DiskMoveType (Location cloneSpec) = ''createNewChildDiskBacking''"
      and "\<exists>w info snapshot.
               Properties d w (vm template) [''snapshot''] = Inr info
               \<and> mo_VirtualMachine.Snapshot info = Some snapshot
               \<and> VirtualMachineCloneSpec.Snapshot cloneSpec = CurrentSnapshot snapshot"
      by blast+
  }
qed


lemma clone1_simps:
  "CloneConfig.Name clone1 = ''clone1''" "CloneConfig.Folder clone1 = ''''"
  "CloneConfig.Host clone1 = ''esxi-1''" "CloneConfig.ResourcePool clone1 = ''''"
  "CloneConfig.Datastore clone1 = ''datastore1''" "LinkedClone clone1 = True"
  by (simp_all add: clone1_def)

theorem Clone_linked_witness:
  "LinkedClone clone1
   \<and> Clone endpoint world0 vm1 clone1 =
       (Inl (Error ''`linked_clone=true`, but template has no snapshots''),
        \<lparr>clock = 0,
         trace = [CallFindFolder '''', CallFindResourcePool ''esxi-1'' '''',
                  CallFindDatastoreOrDefault ''datastore1'',
                  CallProperties (vm vm1) [''snapshot'']]\<rparr>)
   \<and> take 5 (calls_since world0 (snd (Clone endpoint_snapshot world0 vm1 clone1))) =
       [CallFindFolder '''', CallFindResourcePool ''esxi-1'' '''',
        CallFindDatastoreOrDefault ''datastore1'',
        CallProperties (vm vm1) [''snapshot''],
        CallClone (vm vm1) (ManagedObjectReference ''Folder'' '''') ''clone1''
          \<lparr>Location = \<lparr>Pool = Some (ManagedObjectReference ''ResourcePool'' ''''),
                        VirtualMachineRelocateSpec.Datastore =
                          Some (ManagedObjectReference ''Datastore'' ''datastore1''),
                        DiskMoveType = ''createNewChildDiskBacking''\<rparr>,
           PowerOn = False,
           VirtualMachineCloneSpec.Snapshot = Some snapshot7\<rparr>]"
proof -
  have a: "Clone endpoint world0 vm1 clone1 =
       (Inl (Error ''`linked_clone=true`, but template has no snapshots''),
        \<lparr>clock = 0,
         trace = [CallFindFolder '''', CallFindResourcePool ''esxi-1'' '''',
                  CallFindDatastoreOrDefault ''datastore1'',
                  CallProperties (vm vm1) [''snapshot'']]\<rparr>)"
    using Clone_linked
      [of clone1 endpoint vm1 world0 "ManagedObjectReference ''Folder'' ''''"
          "ManagedObjectReference ''ResourcePool'' ''''"
          "ManagedObjectReference ''Datastore'' ''datastore1''"
          "\<lparr>mo_VirtualMachine.Snapshot = None\<rparr>"]
    by (simp add: endpoint_simps clone1_simps world0_def)
  have b: "take 5 (calls_since world0 (snd (Clone endpoint_snapshot world0 vm1 clone1))) =
       [CallFindFolder '''', CallFindResourcePool ''esxi-1'' '''',
        CallFindDatastoreOrDefault ''datastore1'',
        CallProperties (vm vm1) [''snapshot''],
        CallClone (vm vm1) (ManagedObjectReference ''Folder'' '''') ''clone1''
          \<lparr>Location = \<lparr>Pool = Some (ManagedObjectReference ''ResourcePool'' ''''),
                        VirtualMachineRelocateSpec.Datastore =
                          Some (ManagedObjectReference ''Datastore'' ''datastore1''),
                        DiskMoveType = ''createNewChildDiskBacking''\<rparr>,
           PowerOn = False,
           VirtualMachineCloneSpec.Snapshot = Some snapshot7\<rparr>]"
    using Clone_linked
      [of clone1 endpoint_snapshot vm1 world0 "ManagedObjectReference ''Folder'' ''''"
          "ManagedObjectReference ''ResourcePool'' ''''"
          "ManagedObjectReference ''Datastore'' ''datastore1''"
          "\<lparr>mo_VirtualMachine.Snapshot = Some \<lparr>CurrentSnapshot = Some snapshot7\<rparr>\<rparr>"]
    by (simp add: endpoint_snapshot_def endpoint_simps clone1_simps)
  from a b show ?thesis by (simp add: clone1_simps)
qed

lemma Clone_unlinked_exact:
  assumes "\<not> LinkedClone config"
    and "\<And>w. FindFolder d w (CloneConfig.Folder config) = Inr folder"
    and "\<And>w. FindResourcePool d w (CloneConfig.Host config) (CloneConfig.ResourcePool config)
              = Inr pool"
    and "\<And>w. FindDatastoreOrDefault d w (CloneConfig.Datastore config) = Inr datastore"
  shows "take 4 (calls_since w0 (snd (Clone d w0 template config))) =
        [CallFindFolder (CloneConfig.Folder config),
         CallFindResourcePool (CloneConfig.Host config) (CloneConfig.ResourcePool config),
         CallFindDatastoreOrDefault (CloneConfig.Datastore config),
         CallClone (vm template) folder (CloneConfig.Name config)
           \<lparr>Location = \<lparr>Pool = Some pool,
                         VirtualMachineRelocateSpec.Datastore = Some datastore,
                         DiskMoveType = ''''\<rparr>,
            PowerOn = False,
            VirtualMachineCloneSpec.Snapshot = None\<rparr>]"
  using assms
  by (simp add: Clone_def Info_def remote_def Let_def split: sum.splits AnyType.splits)

text \<open>
  C10. Every clone task that \<open>Clone\<close> submits, for every configuration, driver and template,
  carries a clone specification with \<open>PowerOn = false\<close>.
\<close>

theorem Clone_powered_off:
  "\<forall>v folder name cloneSpec.
     CallClone v folder name cloneSpec
       \<in> set (calls_since w0 (snd (Clone d w0 template config))) \<longrightarrow>
     PowerOn cloneSpec = False"
  using Clone_PowerOn_False by blast

theorem Clone_powered_off_witness:
  "CallClone (vm vm1) (ManagedObjectReference ''Folder'' '''') ''clone1''
     \<lparr>Location = \<lparr>Pool = Some (ManagedObjectReference ''ResourcePool'' ''''),
                   VirtualMachineRelocateSpec.Datastore =
                     Some (ManagedObjectReference ''Datastore'' ''datastore1''),
                   DiskMoveType = ''''\<rparr>,
      PowerOn = False,
      VirtualMachineCloneSpec.Snapshot = None\<rparr>
     \<in> set (calls_since world0 (snd (Clone endpoint world0 vm1 (clone1\<lparr>LinkedClone := False\<rparr>))))
   \<and> PowerOn
        \<lparr>Location = \<lparr>Pool = Some (ManagedObjectReference ''ResourcePool'' ''''),
                      VirtualMachineRelocateSpec.Datastore =
                        Some (ManagedObjectReference ''Datastore'' ''datastore1''),
                      DiskMoveType = ''''\<rparr>,
         PowerOn = False,
         VirtualMachineCloneSpec.Snapshot = None\<rparr> = False"
proof -
  have "take 4 (calls_since world0 (snd (Clone endpoint world0 vm1 (clone1\<lparr>LinkedClone := False\<rparr>))))
    = [CallFindFolder '''', CallFindResourcePool ''esxi-1'' '''',
       CallFindDatastoreOrDefault ''datastore1'',
       CallClone (vm vm1) (ManagedObjectReference ''Folder'' '''') ''clone1''
         \<lparr>Location = \<lparr>Pool = Some (ManagedObjectReference ''ResourcePool'' ''''),
                       VirtualMachineRelocateSpec.Datastore =
                         Some (ManagedObjectReference ''Datastore'' ''datastore1''),
                       DiskMoveType = ''''\<rparr>,
          PowerOn = False,
          VirtualMachineCloneSpec.Snapshot = None\<rparr>]"
    using Clone_unlinked_exact
      [of "clone1\<lparr>LinkedClone := False\<rparr>" endpoint "ManagedObjectReference ''Folder'' ''''"
          "ManagedObjectReference ''ResourcePool'' ''''"
          "ManagedObjectReference ''Datastore'' ''datastore1''" world0 vm1]
    by (simp add: endpoint_simps clone1_simps)
  then have m: "CallClone (vm vm1) (ManagedObjectReference ''Folder'' '''') ''clone1''
     \<lparr>Location = \<lparr>Pool = Some (ManagedObjectReference ''ResourcePool'' ''''),
                   VirtualMachineRelocateSpec.Datastore =
                     Some (ManagedObjectReference ''Datastore'' ''datastore1''),
                   DiskMoveType = ''''\<rparr>,
      PowerOn = False,
      VirtualMachineCloneSpec.Snapshot = None\<rparr>
     \<in> set (take 4 (calls_since world0
                       (snd (Clone endpoint world0 vm1 (clone1\<lparr>LinkedClone := False\<rparr>)))))"
    by simp
  have n: "CallClone (vm vm1) (ManagedObjectReference ''Folder'' '''') ''clone1''
     \<lparr>Location = \<lparr>Pool = Some (ManagedObjectReference ''ResourcePool'' ''''),
                   VirtualMachineRelocateSpec.Datastore =
                     Some (ManagedObjectReference ''Datastore'' ''datastore1''),
                   DiskMoveType = ''''\<rparr>,
      PowerOn = False,
      VirtualMachineCloneSpec.Snapshot = None\<rparr>
     \<in> set (calls_since world0 (snd (Clone endpoint world0 vm1 (clone1\<lparr>LinkedClone := False\<rparr>))))"
    by (rule set_mp [OF set_take_subset m])
  with Clone_powered_off [of world0 endpoint vm1 "clone1\<lparr>LinkedClone := False\<rparr>"]
  show ?thesis by blast
qed

text \<open>
  C9. \<open>AddCdrom\<close> does not look at the error that \<open>ConfigSpec\<close> returns: it behaves as it does
  with the library whose \<open>ConfigSpec\<close> returns the same value and no error. When the device
  list is read, the IDE controller found and the drive created, the second call is the
  reconfigure task, submitted with whatever change set came back beside the error.
\<close>

theorem AddCdrom_error_not_checked:
  "AddCdrom l d w0 v isoPath =
     AddCdrom (l\<lparr>ConfigSpec := \<lambda>devices op. (fst (ConfigSpec l devices op), None)\<rparr>)
       d w0 v isoPath
   \<and> (\<forall>devices ide cdrom deviceChange err.
         VMDevice d w0 (vm v) = Inr devices \<longrightarrow>
         FindIDEController l devices '''' = Inr ide \<longrightarrow>
         CreateCdrom l devices ide = Inr cdrom \<longrightarrow>
         ConfigSpec l [InsertIso l devices cdrom isoPath] ''add'' = (deviceChange, Some err) \<longrightarrow>
         take 2 (calls_since w0 (snd (AddCdrom l d w0 v isoPath))) =
           [CallDevice (vm v),
            CallReconfigure (vm v)
              (VirtualMachineConfigSpec_zero\<lparr>DeviceChange := deviceChange\<rparr>)])"
  using AddCdrom_ignores_error AddCdrom_submits by blast

lemma library_failing_ConfigSpec_simps:
  "FindIDEController library_failing_ConfigSpec = FindIDEController govmomi"
  "CreateCdrom library_failing_ConfigSpec = CreateCdrom govmomi"
  "InsertIso library_failing_ConfigSpec = InsertIso govmomi"
  "ConfigSpec library_failing_ConfigSpec devices op = ([], Some (Error ''unsupported operation''))"
  by (simp_all add: library_failing_ConfigSpec_def)

theorem AddCdrom_error_not_checked_witness:
  "ConfigSpec library_failing_ConfigSpec [] ''add'' = ([], Some (Error ''unsupported operation''))
   \<and> take 2 (calls_since world0
               (snd (AddCdrom library_failing_ConfigSpec endpoint world0 vm1 ''[datastore1] os.iso'')))
       = [CallDevice (vm vm1), CallReconfigure (vm vm1) VirtualMachineConfigSpec_zero]"
proof -
  have 1: "VMDevice endpoint world0 (vm vm1)
             = Inr [VirtualIDEController (zero_VirtualDevice\<lparr>Key := 200\<rparr>)]"
    by (simp add: endpoint_simps)
  have 2: "FindIDEController library_failing_ConfigSpec
             [VirtualIDEController (zero_VirtualDevice\<lparr>Key := 200\<rparr>)] ''''
           = Inr (VirtualIDEController (zero_VirtualDevice\<lparr>Key := 200\<rparr>))"
    by (simp add: library_failing_ConfigSpec_simps govmomi_simps)
  have 3: "\<exists>cdrom. CreateCdrom library_failing_ConfigSpec
             [VirtualIDEController (zero_VirtualDevice\<lparr>Key := 200\<rparr>)]
             (VirtualIDEController (zero_VirtualDevice\<lparr>Key := 200\<rparr>)) = Inr cdrom"
    by (simp add: library_failing_ConfigSpec_simps govmomi_simps)
  from AddCdrom_error_not_checked
         [of library_failing_ConfigSpec endpoint world0 vm1 "''[datastore1] os.iso''"] 1 2 3
  have "take 2 (calls_since world0
               (snd (AddCdrom library_failing_ConfigSpec endpoint world0 vm1 ''[datastore1] os.iso'')))
       = [CallDevice (vm vm1), CallReconfigure (vm vm1) VirtualMachineConfigSpec_zero]"
    by (auto simp add: library_failing_ConfigSpec_simps(4) VirtualMachineConfigSpec_zero_def)
  then show ?thesis by (simp add: library_failing_ConfigSpec_simps)
qed

subsection \<open>Waiting for shutdown\<close>

lemma sleeps_zero:
  fixes T c S :: int
  assumes "T \<le> c" and "0 < S"
  shows "nat ((T - c + S - 1) div S) = 0"
proof -
  have "T - c + S - 1 < S" using assms by simp
  then have "(T - c + S - 1) div S \<le> (S - 1) div S"
    using assms(2) by (intro zdiv_mono1) simp_all
  moreover have "(S - 1) div S = 0"
    using assms(2) by (intro div_pos_pos_trivial) simp_all
  ultimately show ?thesis by simp
qed

lemma sleeps_Suc:
  fixes T c S :: int
  assumes "c < T" and "0 < S"
  shows "nat ((T - c + S - 1) div S) = Suc (nat ((T - (c + S) + S - 1) div S))"
proof -
  have "0 \<le> (T - c - 1) div S" using assms by (simp add: pos_imp_zdiv_nonneg_iff)
  moreover have "T - c + S - 1 = S + (T - c - 1)" by simp
  then have "(T - c + S - 1) div S = (T - c - 1) div S + 1"
    using assms(2) by (simp only: div_add_self1)
  moreover have "T - (c + S) + S - 1 = T - c - 1" by simp
  ultimately show ?thesis by (simp add: nat_add_distrib)
qed

lemma WaitForShutdown_loop_never_off:
  assumes never: "\<And>w. \<exists>s. PowerState d w (vm v) = Inr s \<and> s \<noteq> ''poweredOff''"
  shows "WaitForShutdown_loop d T v w =
     (Some (Error ''Timeout while waiting for machine to shut down.''),
      w\<lparr>clock := clock w + nat ((T - int (clock w) + int Second - 1) div int Second) * Second,
        trace := trace w
          @ concat (replicate (nat ((T - int (clock w) + int Second - 1) div int Second))
                      [CallPowerState (vm v), CallSleep Second])
          @ [CallPowerState (vm v)]\<rparr>)"
  using never
proof (induction d T v w rule: WaitForShutdown_loop.induct)
  case (1 d T v w0)
  from "1.prems" obtain s where s: "PowerState d w0 (vm v) = Inr s" "s \<noteq> ''poweredOff''"
    by blast
  have S: "0 < int Second" by (simp add: Second_def)
  show ?case
  proof (cases "T \<le> int (clock w0)")
    case True
    with s sleeps_zero [OF True S] show ?thesis
      by (subst WaitForShutdown_loop.simps) (simp add: remote_def)
  next
    case False
    then have lt: "int (clock w0) < T" by simp
    let ?w1 = "w0\<lparr>trace := trace w0 @ [CallPowerState (vm v)]\<rparr>"
    have ih: "WaitForShutdown_loop d T v (Sleep (1 * Second) ?w1) =
     (Some (Error ''Timeout while waiting for machine to shut down.''),
      (Sleep (1 * Second) ?w1)\<lparr>clock := clock (Sleep (1 * Second) ?w1) + nat ((T - int (clock (Sleep (1 * Second) ?w1)) + int Second - 1) div int Second) * Second,
        trace := trace (Sleep (1 * Second) ?w1)
          @ concat (replicate (nat ((T - int (clock (Sleep (1 * Second) ?w1)) + int Second - 1) div int Second))
                      [CallPowerState (vm v), CallSleep Second])
          @ [CallPowerState (vm v)]\<rparr>)"
    proof (rule "1.IH" [of "Inr s" ?w1 s])
      show "(Inr s, ?w1) = remote (CallPowerState (vm v)) (\<lambda>w. PowerState d w (vm v)) w0"
        using s by (simp add: remote_def)
      show "Inr s = Inr s" ..
      show "s \<noteq> ''poweredOff''" by fact
      show "\<not> T \<le> int (clock ?w1)" using False by simp
      show "\<exists>s. PowerState d w (vm v) = Inr s \<and> s \<noteq> ''poweredOff''" for w
        by (rule "1.prems")
    qed
    have c: "int (clock (Sleep (1 * Second) ?w1)) = int (clock w0) + int Second"
      by (simp add: Sleep_def)
    have step: "WaitForShutdown_loop d T v w0
                  = WaitForShutdown_loop d T v (Sleep (1 * Second) ?w1)"
      using s False by (subst WaitForShutdown_loop.simps) (simp add: remote_def)
    show ?thesis
      unfolding step ih
      by (simp add: c sleeps_Suc [OF lt S]) (simp add: Sleep_def)
  qed
qed


lemma sleeps_bounds:
  fixes t S :: int
  assumes "0 < t" and "0 < S"
  shows "t \<le> int (nat ((t + S - 1) div S)) * S"
    and "int (nat ((t + S - 1) div S)) * S < t + S"
proof -
  let ?q = "(t + S - 1) div S"
  have q: "0 \<le> ?q" using assms by (simp add: pos_imp_zdiv_nonneg_iff)
  have e: "?q * S + (t + S - 1) mod S = t + S - 1" by simp
  have r: "0 \<le> (t + S - 1) mod S" "(t + S - 1) mod S < S"
    using assms(2) by simp_all
  from e r have "t \<le> ?q * S" and "?q * S < t + S" by linarith+
  with q show "t \<le> int (nat ?q) * S" and "int (nat ?q) * S < t + S" by simp_all
qed

text \<open>
  C8. \<open>WaitForShutdown\<close> is a total function: the loop returns for every driver, timeout and
  world. For every positive timeout, against a machine whose power state is always read
  successfully and is never "poweredOff", it returns the timeout error. It polls the power
  state, sleeps one second and polls again, \<open>n\<close> sleeps and \<open>n + 1\<close> polls in all, where \<open>n\<close> is
  the timeout in seconds rounded up; so the time slept is at least the timeout and less than
  the timeout plus one second.
\<close>

theorem WaitForShutdown_timeout:
  "0 <s timeout \<longrightarrow>
   (\<forall>w. \<exists>s. PowerState d w (vm v) = Inr s \<and> s \<noteq> ''poweredOff'') \<longrightarrow>
   (let n = nat ((sint timeout + int Second - 1) div int Second) in
      WaitForShutdown d w0 v timeout =
        (Some (Error ''Timeout while waiting for machine to shut down.''),
         w0\<lparr>clock := clock w0 + n * Second,
            trace := trace w0
              @ concat (replicate n [CallPowerState (vm v), CallSleep Second])
              @ [CallPowerState (vm v)]\<rparr>)
      \<and> sint timeout \<le> int (n * Second)
      \<and> int (n * Second) < sint timeout + int Second)"
proof (intro impI)
  assume pos: "0 <s timeout"
    and never: "\<forall>w. \<exists>s. PowerState d w (vm v) = Inr s \<and> s \<noteq> ''poweredOff''"
  have t: "0 < sint timeout" using pos by (simp add: word_sless_alt)
  have S: "0 < int Second" by (simp add: Second_def)
  have "WaitForShutdown d w0 v timeout =
        (Some (Error ''Timeout while waiting for machine to shut down.''),
         w0\<lparr>clock := clock w0
              + nat ((sint timeout + int Second - 1) div int Second) * Second,
            trace := trace w0
              @ concat (replicate (nat ((sint timeout + int Second - 1) div int Second))
                          [CallPowerState (vm v), CallSleep Second])
              @ [CallPowerState (vm v)]\<rparr>)"
    using never
    by (simp add: WaitForShutdown_def WaitForShutdown_loop_never_off)
  with sleeps_bounds [OF t S]
  show "let n = nat ((sint timeout + int Second - 1) div int Second) in
      WaitForShutdown d w0 v timeout =
        (Some (Error ''Timeout while waiting for machine to shut down.''),
         w0\<lparr>clock := clock w0 + n * Second,
            trace := trace w0
              @ concat (replicate n [CallPowerState (vm v), CallSleep Second])
              @ [CallPowerState (vm v)]\<rparr>)
      \<and> sint timeout \<le> int (n * Second)
      \<and> int (n * Second) < sint timeout + int Second"
    by (simp add: Let_def)
qed

theorem WaitForShutdown_timeout_witness:
  "(0 :: int64) <s 2000000000
   \<and> WaitForShutdown endpoint world0 vm1 2000000000 =
       (Some (Error ''Timeout while waiting for machine to shut down.''),
        \<lparr>clock = 2000000000,
         trace = [CallPowerState (vm vm1), CallSleep 1000000000,
                  CallPowerState (vm vm1), CallSleep 1000000000,
                  CallPowerState (vm vm1)]\<rparr>)"
proof -
  have p: "(0 :: int64) <s 2000000000" by (simp add: word_sless_alt)
  have n: "\<forall>w. \<exists>s. PowerState endpoint w (vm vm1) = Inr s \<and> s \<noteq> ''poweredOff''"
    by (simp add: endpoint_simps)
  have k: "nat ((sint (2000000000 :: int64) + int Second - 1) div int Second) = 2"
    by (simp add: Second_def)
  from WaitForShutdown_timeout [of 2000000000 endpoint vm1 world0] p n
  have "WaitForShutdown endpoint world0 vm1 2000000000 =
       (Some (Error ''Timeout while waiting for machine to shut down.''),
        \<lparr>clock = 2000000000,
         trace = [CallPowerState (vm vm1), CallSleep 1000000000,
                  CallPowerState (vm vm1), CallSleep 1000000000,
                  CallPowerState (vm vm1)]\<rparr>)"
    unfolding k Let_def
    by (simp add: world0_def Second_def numeral_2_eq_2)
  with p show ?thesis by simp
qed

end
